theory Spec2Isabelle
  imports Complex_Main
begin

section \<open>Values, errors and the special-function library\<close>

text \<open>
  The module \<^verbatim>\<open>salamanca/ineq.py\<close> computes with Python and numpy floating-point
  numbers. A float is modelled as a real number and arithmetic on floats as exact
  arithmetic: there is no rounding and no overflow of floats. Where the source computes
  through an infinity, a nan or a complex number, the model either represents the
  infinity (\<open>xreal\<close>, for \<^verbatim>\<open>norm.ppf\<close>) or gives the result \<open>Special\<close>, which stands for a
  value that the model does not determine; what a function of the library makes of
  such an argument is not determined either, and is \<open>Special\<close> again.
\<close>

datatype xreal = MInf | Fin real | PInf

datatype fl = Finite real | Special

text \<open>
  The attribute values of a configuration object: \<^verbatim>\<open>None\<close>, a boolean, a float
  (\<open>PNum\<close>) or an int (\<open>PInt\<close>, of any size, as in Python). Python's \<^verbatim>\<open>bool\<close> is a
  subtype of \<^verbatim>\<open>int\<close>, so a boolean is accepted wherever a number is.
\<close>

datatype pyval = PNone | PBool bool | PNum real | PInt int

text \<open>
  Every \<^verbatim>\<open>raise\<close> of the module raises \<^verbatim>\<open>ValueError\<close> with a message. The other
  exceptions come from Python and numpy: \<^verbatim>\<open>TypeError\<close> (arithmetic on \<^verbatim>\<open>None\<close>, a call of
  something that is not callable, an argument passed twice, a numpy function applied to
  an int beyond 64 bits), \<^verbatim>\<open>AttributeError\<close> (the plain access \<^verbatim>\<open>data.gini\<close> on a missing
  attribute) and \<^verbatim>\<open>OverflowError\<close> (the conversion of an int to a float).
\<close>

datatype error = ValueError string | TypeError | AttributeError string | OverflowError

fun ebind :: "error + 'a \<Rightarrow> ('a \<Rightarrow> error + 'b) \<Rightarrow> error + 'b" where
  "ebind (Inl e) f = Inl e"
| "ebind (Inr x) f = f x"

text \<open>The truth value of an attribute value, as \<^verbatim>\<open>if data.mean\<close> takes it.\<close>

fun truthy :: "pyval \<Rightarrow> bool" where
  "truthy PNone = False"
| "truthy (PBool b) = b"
| "truthy (PNum x) = (x \<noteq> 0)"
| "truthy (PInt n) = (n \<noteq> 0)"

text \<open>
  The number that a numpy or scipy function (\<^verbatim>\<open>erfinv\<close>, \<^verbatim>\<open>np.log\<close>) computes with when
  it is given an attribute value: an int of at most 64 bits is converted to a float, a
  larger one is refused.
\<close>

fun np_float :: "pyval \<Rightarrow> error + real" where
  "np_float PNone = Inl TypeError"
| "np_float (PBool b) = Inr (if b then 1 else 0)"
| "np_float (PNum x) = Inr x"
| "np_float (PInt n) =
     (if - (2 ^ 63) \<le> n \<and> n < 2 ^ 64 then Inr (real_of_int n) else Inl TypeError)"

text \<open>
  Python's conversion of an int to a float, as \<^verbatim>\<open>n ** 0.5\<close> does it: it raises
  \<^verbatim>\<open>OverflowError\<close> when the int rounds to \<open>2 ^ 1024\<close> or more.
\<close>

definition py_float :: "int \<Rightarrow> error + real" where
  "py_float n =
     (if \<bar>n\<bar> < 2 ^ 1024 - 2 ^ 970 then Inr (real_of_int n) else Inl OverflowError)"

text \<open>The number that an attribute value is, when it is returned as it is.\<close>

fun value_of :: "pyval \<Rightarrow> fl" where
  "value_of PNone = Special"
| "value_of (PBool b) = Finite (if b then 1 else 0)"
| "value_of (PNum x) = Finite x"
| "value_of (PInt n) = Finite (real_of_int n)"

text \<open>
  The functions imported from \<^verbatim>\<open>scipy.special\<close> and \<^verbatim>\<open>scipy.stats\<close> are not part of
  the repository. They are parameters of the model, collected in one record.
  \<^item> \<open>erf\<close> and \<open>erfinv\<close> are given on the reals; \<open>erfinv sp g\<close> stands for the library's
    value only for \<open>- 1 < g\<close> and \<open>g < 1\<close>, where that value is finite.
  \<^item> \<open>norm_ppf sp x\<close> is \<^verbatim>\<open>norm.ppf(x)\<close> for \<open>x\<close> in \<open>[0, 1]\<close>, with its two infinite values.
  \<^item> \<open>lognorm_cdf sp x shape scale\<close> is \<^verbatim>\<open>lognorm.cdf(x, shape, scale=scale)\<close> and
    \<open>lognorm_mean sp shape scale\<close> is \<^verbatim>\<open>lognorm.mean(shape, scale=scale)\<close>, likewise for
    the median, the variance and the standard deviation; the library decides where they
    are nan.
\<close>

record special =
  erf :: "real \<Rightarrow> real"
  erfinv :: "real \<Rightarrow> real"
  norm_cdf :: "xreal \<Rightarrow> real"
  norm_ppf :: "real \<Rightarrow> xreal"
  lognorm_cdf :: "real \<Rightarrow> real \<Rightarrow> real \<Rightarrow> fl"
  lognorm_mean :: "real \<Rightarrow> real \<Rightarrow> fl"
  lognorm_median :: "real \<Rightarrow> real \<Rightarrow> fl"
  lognorm_var :: "real \<Rightarrow> real \<Rightarrow> fl"
  lognorm_std :: "real \<Rightarrow> real \<Rightarrow> fl"

text \<open>\<^verbatim>\<open>norm.ppf(x) - shape\<close> for a finite shape: an infinity stays that infinity.\<close>

fun xsub :: "xreal \<Rightarrow> real \<Rightarrow> xreal" where
  "xsub MInf s = MInf"
| "xsub (Fin a) s = Fin (a - s)"
| "xsub PInf s = PInf"

text \<open>A library function of two finite arguments, applied to two derived values.\<close>

fun lift2 :: "(real \<Rightarrow> real \<Rightarrow> fl) \<Rightarrow> fl \<Rightarrow> fl \<Rightarrow> fl" where
  "lift2 f (Finite a) (Finite b) = f a b"
| "lift2 f Special b = Special"
| "lift2 f (Finite a) Special = Special"

section \<open>The conversion functions\<close>

definition MAX_THEIL :: real where
  "MAX_THEIL = 664 / 100"

definition gini_to_std :: "special \<Rightarrow> real \<Rightarrow> real" where
  "gini_to_std sp g = 2 * erfinv sp g"

definition std_to_gini :: "special \<Rightarrow> real \<Rightarrow> real" where
  "std_to_gini sp s = erf sp (1 / 2 * s)"

text \<open>
  The four elementary conversions at a float for which the result is a finite real
  number. \<^verbatim>\<open>(2 * t) ** 0.5\<close> is the square root for \<open>t \<ge> 0\<close>; for \<open>t < 0\<close> Python returns a
  complex number (numpy \<^verbatim>\<open>nan\<close>), which \<open>theil_to_std_at\<close> below gives as \<open>Special\<close>.
\<close>

definition theil_to_std :: "real \<Rightarrow> real" where
  "theil_to_std t = sqrt (2 * t)"

definition std_to_theil :: "real \<Rightarrow> real" where
  "std_to_theil s = s\<^sup>2 / 2"

definition theil_empirical_constants :: "real \<times> real \<times> real" where
  "theil_empirical_constants = (216 / 1000, 991 / 1000, 3 / 1000)"

text \<open>
  \<^verbatim>\<open>gini_to_theil\<close> and \<^verbatim>\<open>theil_to_gini\<close> at a scalar argument, where \<^verbatim>\<open>np.all\<close> of a
  comparison is the comparison itself.
\<close>

definition gini_to_theil :: "special \<Rightarrow> real \<Rightarrow> bool \<Rightarrow> error + real" where
  "gini_to_theil sp g empirical =
     (if \<not> (g > 0 \<and> g < 1) then Inl (ValueError ''Gini not within (0, 1)'')
      else
        let s = gini_to_std sp g;
            t = std_to_theil s;
            t = (if empirical
                 then (case theil_empirical_constants of
                         (a, b, c) \<Rightarrow> (- b + sqrt (b\<^sup>2 - 4 * a * (c - t))) / (2 * a))
                 else t)
        in if \<not> (t < MAX_THEIL \<and> t > 0) then Inl (ValueError ''Theil not within (0, 2.88)'')
           else Inr t)"

definition theil_to_gini :: "special \<Rightarrow> real \<Rightarrow> bool \<Rightarrow> error + real" where
  "theil_to_gini sp t empirical =
     (if \<not> (t < MAX_THEIL \<and> t > 0) then Inl (ValueError ''Theil not within (0, 2.88)'')
      else
        let t = (if empirical
                 then (case theil_empirical_constants of
                         (a, b, c) \<Rightarrow> a * t\<^sup>2 + b * t + c)
                 else t);
            s = theil_to_std t;
            g = std_to_gini sp s
        in if \<not> (g > 0 \<and> g < 1) then Inl (ValueError ''Gini not within (0, 1)'')
           else Inr g)"

text \<open>
  The same two functions at a one-dimensional array: the arithmetic is elementwise and
  \<^verbatim>\<open>np.all\<close> holds when the comparison holds at every element.
\<close>

definition gini_to_theil_arr :: "special \<Rightarrow> real list \<Rightarrow> bool \<Rightarrow> error + real list" where
  "gini_to_theil_arr sp g empirical =
     (if \<not> (list_all (\<lambda>x. x > 0) g \<and> list_all (\<lambda>x. x < 1) g)
      then Inl (ValueError ''Gini not within (0, 1)'')
      else
        let s = map (gini_to_std sp) g;
            t = map std_to_theil s;
            t = (if empirical
                 then (case theil_empirical_constants of
                         (a, b, c) \<Rightarrow> map (\<lambda>x. (- b + sqrt (b\<^sup>2 - 4 * a * (c - x))) / (2 * a)) t)
                 else t)
        in if \<not> (list_all (\<lambda>x. x < MAX_THEIL) t \<and> list_all (\<lambda>x. x > 0) t)
           then Inl (ValueError ''Theil not within (0, 2.88)'')
           else Inr t)"

definition theil_to_gini_arr :: "special \<Rightarrow> real list \<Rightarrow> bool \<Rightarrow> error + real list" where
  "theil_to_gini_arr sp t empirical =
     (if \<not> (list_all (\<lambda>x. x < MAX_THEIL) t \<and> list_all (\<lambda>x. x > 0) t)
      then Inl (ValueError ''Theil not within (0, 2.88)'')
      else
        let t = (if empirical
                 then (case theil_empirical_constants of
                         (a, b, c) \<Rightarrow> map (\<lambda>x. a * x\<^sup>2 + b * x + c) t)
                 else t);
            s = map theil_to_std t;
            g = map (std_to_gini sp) s
        in if \<not> (list_all (\<lambda>x. x > 0) g \<and> list_all (\<lambda>x. x < 1) g)
           then Inl (ValueError ''Gini not within (0, 1)'')
           else Inr g)"

section \<open>Configuration objects\<close>

text \<open>
  Objects are mutable and \<^verbatim>\<open>update\<close> may return its receiver or a copy of it, so the
  model has an explicit store: a list of attribute dictionaries (the instance
  dictionaries), an object reference being an index into it. A new object is appended.
  Keyword arguments are a list of pairs in the order of the call; in a Python call
  their names are distinct.

  The classes \<^verbatim>\<open>AttrObject\<close> and \<^verbatim>\<open>LogNormalData\<close> bind four names, their methods. An
  instance attribute of one of these names hides the method; as attribute values are
  \<^verbatim>\<open>None\<close>, booleans and numbers, a call of it raises \<^verbatim>\<open>TypeError\<close>. Names that begin with
  two underscores are Python's special attributes (\<^verbatim>\<open>__class__\<close>, \<^verbatim>\<open>__dict__\<close>,
  \<^verbatim>\<open>__init__\<close>, ...): they are outside the model, and the theorems exclude them.
\<close>

type_synonym attrs = "string \<Rightarrow> pyval option"
type_synonym ref = nat
type_synonym heap = "attrs list"
type_synonym kwargs = "(string \<times> pyval) list"

definition dunder :: "string \<Rightarrow> bool" where
  "dunder k = (take 2 k = ''__'')"

definition class_methods :: "string list" where
  "class_methods = [''update'', ''_get'', ''add_defaults'', ''check'']"

text \<open>
  \<^verbatim>\<open>getattr(x, k, None)\<close> for a name \<open>k\<close> that the class does not bind (\<^verbatim>\<open>check\<close> asks for
  \<^verbatim>\<open>theil\<close>, \<^verbatim>\<open>gini\<close>, \<^verbatim>\<open>inc\<close> and \<^verbatim>\<open>mean\<close>): the instance dictionary decides.
\<close>

definition getattr :: "heap \<Rightarrow> ref \<Rightarrow> string \<Rightarrow> pyval" where
  "getattr h x k = (case (h ! x) k of None \<Rightarrow> PNone | Some v \<Rightarrow> v)"

text \<open>
  The test \<^verbatim>\<open>getattr(x, k, None) is None\<close> for any name: what the instance dictionary
  holds decides, and without an instance attribute the class is asked, whose methods
  are not \<^verbatim>\<open>None\<close>.
\<close>

definition getattr_is_None :: "heap \<Rightarrow> ref \<Rightarrow> string \<Rightarrow> bool" where
  "getattr_is_None h x k =
     (case (h ! x) k of None \<Rightarrow> k \<notin> set class_methods | Some v \<Rightarrow> v = PNone)"

text \<open>\<^verbatim>\<open>setattr(x, k, v)\<close> and \<^verbatim>\<open>deepcopy(x)\<close>.\<close>

definition setattr :: "heap \<Rightarrow> ref \<Rightarrow> string \<Rightarrow> pyval \<Rightarrow> heap" where
  "setattr h x k v = h[x := (h ! x)(k \<mapsto> v)]"

definition deepcopy :: "heap \<Rightarrow> ref \<Rightarrow> heap \<times> ref" where
  "deepcopy h x = (h @ [h ! x], length h)"

text \<open>The plain attribute access \<^verbatim>\<open>x.k\<close> of a data attribute.\<close>

definition attr :: "heap \<Rightarrow> ref \<Rightarrow> string \<Rightarrow> error + pyval" where
  "attr h x k = (case (h ! x) k of None \<Rightarrow> Inl (AttributeError k) | Some v \<Rightarrow> Inr v)"

text \<open>\<open>x.m\<close> finds an instance attribute instead of the method \<open>m\<close> of the class.\<close>

definition shadowed :: "heap \<Rightarrow> ref \<Rightarrow> string \<Rightarrow> bool" where
  "shadowed h x m = ((h ! x) m \<noteq> None)"

subsection \<open>AttrObject\<close>

text \<open>
  The body of \<^verbatim>\<open>update\<close>, with the truth values of its parameters \<^verbatim>\<open>copy\<close> and
  \<^verbatim>\<open>override\<close> and with the keywords that remain in \<^verbatim>\<open>**kwargs\<close>.
\<close>

definition update :: "heap \<Rightarrow> ref \<Rightarrow> bool \<Rightarrow> bool \<Rightarrow> kwargs \<Rightarrow> heap \<times> ref" where
  "update h self copy override kwargs =
     (case (if copy then deepcopy h self else (h, self)) of
        (h1, x) \<Rightarrow>
          (fold (\<lambda>(k, v) h'. if override \<or> getattr_is_None h' x k then setattr h' x k v else h')
             kwargs h1,
           x))"

text \<open>
  The effect of the loop of \<^verbatim>\<open>update\<close> on the attribute dictionary of the object it
  works on (used in the proofs only).
\<close>

fun update_loop :: "bool \<Rightarrow> kwargs \<Rightarrow> attrs \<Rightarrow> attrs" where
  "update_loop override [] a = a"
| "update_loop override ((k, v) # kwargs) a =
     update_loop override kwargs
       (if override \<or> (case a k of None \<Rightarrow> k \<notin> set class_methods | Some w \<Rightarrow> w = PNone)
        then a(k \<mapsto> v) else a)"

text \<open>
  The call \<^verbatim>\<open>x.update(**kwargs)\<close>, as \<^verbatim>\<open>params\<close> makes it, binds the keywords \<^verbatim>\<open>copy\<close>
  and \<^verbatim>\<open>override\<close> to the parameters of \<^verbatim>\<open>update\<close> (both default to \<^verbatim>\<open>True\<close>, and the
  body takes the truth value of what it is given); the other keywords are the fields.
  A keyword \<^verbatim>\<open>self\<close> is an argument passed twice.
\<close>

definition copies :: "kwargs \<Rightarrow> bool" where
  "copies kwargs = (case map_of kwargs ''copy'' of None \<Rightarrow> True | Some v \<Rightarrow> truthy v)"

definition overriding :: "kwargs \<Rightarrow> bool" where
  "overriding kwargs = (case map_of kwargs ''override'' of None \<Rightarrow> True | Some v \<Rightarrow> truthy v)"

definition kw_fields :: "kwargs \<Rightarrow> kwargs" where
  "kw_fields kwargs = filter (\<lambda>(k, v). k \<noteq> ''copy'' \<and> k \<noteq> ''override'') kwargs"

definition update_kw :: "heap \<Rightarrow> ref \<Rightarrow> kwargs \<Rightarrow> heap \<times> (error + ref)" where
  "update_kw h x kwargs =
     (if shadowed h x ''update'' \<or> ''self'' \<in> set (map fst kwargs) then (h, Inl TypeError)
      else case update h x (copies kwargs) (overriding kwargs) (kw_fields kwargs) of
             (h', x') \<Rightarrow> (h', Inr x'))"

text \<open>
  \<^verbatim>\<open>AttrObject.__init__\<close>: a new object with no attributes, updated in place by
  \<^verbatim>\<open>self.update(copy=False, **kwargs)\<close>. A keyword \<^verbatim>\<open>override\<close> is the parameter of
  \<^verbatim>\<open>update\<close>. With a keyword \<^verbatim>\<open>copy\<close> or \<^verbatim>\<open>self\<close> the constructor raises \<^verbatim>\<open>TypeError\<close> (an
  argument passed twice) and there is no object: \<open>AttrObject_init\<close> is the constructor
  for the other keywords.
\<close>

definition AttrObject_init :: "heap \<Rightarrow> kwargs \<Rightarrow> heap \<times> ref" where
  "AttrObject_init h kwargs =
     update (h @ [Map.empty]) (length h) False (overriding kwargs)
       (filter (\<lambda>(k, v). k \<noteq> ''override'') kwargs)"

subsection \<open>LogNormalData\<close>

definition LogNormalData_get :: "heap \<Rightarrow> ref \<Rightarrow> string \<Rightarrow> pyval" where
  "LogNormalData_get h self x = getattr h self x"

text \<open>The body of \<^verbatim>\<open>add_defaults\<close>; the default of \<^verbatim>\<open>inc\<close> is the int 1.\<close>

definition add_defaults :: "heap \<Rightarrow> ref \<Rightarrow> bool \<Rightarrow> heap \<times> ref" where
  "add_defaults h self copy =
     (let defaults = [(''inc'', PInt 1), (''mean'', PBool True),
                      (''gini'', PNone), (''theil'', PNone)]
      in update h self copy False defaults)"

text \<open>The loop over \<^verbatim>\<open>('inc', 'mean')\<close> at the end of \<^verbatim>\<open>check\<close>.\<close>

fun check_declared :: "heap \<Rightarrow> ref \<Rightarrow> string list \<Rightarrow> error + ref" where
  "check_declared h self [] = Inr self"
| "check_declared h self (k # ks) =
     (if LogNormalData_get h self k = PNone
      then Inl (ValueError (''Must declare value for '' @ k))
      else check_declared h self ks)"

text \<open>The body of \<^verbatim>\<open>check\<close>, on an object whose \<^verbatim>\<open>_get\<close> is the method of the class.\<close>

definition check :: "heap \<Rightarrow> ref \<Rightarrow> error + ref" where
  "check h self =
     (let x = [''theil'', ''gini''] in
      if list_all (\<lambda>k. LogNormalData_get h self k = PNone) x
      then Inl (ValueError ''Must use either theil or gini'')
      else if list_all (\<lambda>k. LogNormalData_get h self k \<noteq> PNone) x
      then Inl (ValueError ''Cannot use both theil and gini'')
      else check_declared h self [''inc'', ''mean''])"

section \<open>The log-normal distribution\<close>

record LogNormal =
  init_data :: ref

definition LogNormal_init :: "heap \<Rightarrow> kwargs \<Rightarrow> heap \<times> LogNormal" where
  "LogNormal_init h kwargs =
     (case AttrObject_init h kwargs of (h', d) \<Rightarrow> (h', \<lparr>init_data = d\<rparr>))"

text \<open>
  \<^verbatim>\<open>gini_to_std(data.gini)\<close> and \<^verbatim>\<open>theil_to_std(data.theil)\<close> at an attribute value.
  scipy's \<^verbatim>\<open>erfinv\<close> is finite inside \<open>(- 1, 1)\<close>, infinite at the two ends and nan
  outside. \<^verbatim>\<open>(2 * t) ** 0.5\<close> converts an int \<open>2 * t\<close> to a float, and is a complex number
  (nan for a numpy float) for negative \<open>t\<close>.
\<close>

definition gini_to_std_at :: "special \<Rightarrow> pyval \<Rightarrow> error + fl" where
  "gini_to_std_at sp v =
     ebind (np_float v) (\<lambda>g.
       Inr (if - 1 < g \<and> g < 1 then Finite (gini_to_std sp g) else Special))"

fun theil_to_std_at :: "pyval \<Rightarrow> error + fl" where
  "theil_to_std_at PNone = Inl TypeError"
| "theil_to_std_at (PBool b) = Inr (Finite (theil_to_std (if b then 1 else 0)))"
| "theil_to_std_at (PNum t) = Inr (if 0 \<le> t then Finite (theil_to_std t) else Special)"
| "theil_to_std_at (PInt n) =
     ebind (py_float (2 * n)) (\<lambda>_.
       Inr (if 0 \<le> n then Finite (theil_to_std (real_of_int n)) else Special))"

text \<open>
  \<^verbatim>\<open>np.exp(np.log(inc) - shape ** 2 / 2)\<close> for a float \<open>inc\<close>: \<^verbatim>\<open>np.log(0)\<close> is minus
  infinity, where \<^verbatim>\<open>np.exp\<close> is 0, and \<^verbatim>\<open>np.log\<close> of a negative number is nan.
\<close>

fun exp_log_minus :: "real \<Rightarrow> fl \<Rightarrow> fl" where
  "exp_log_minus inc (Finite shape) =
     (if 0 < inc then Finite (exp (ln inc - shape\<^sup>2 / 2))
      else if inc = 0 then Finite 0
      else Special)"
| "exp_log_minus inc Special = Special"

text \<open>
  The last statements of \<^verbatim>\<open>params\<close>: the pair derived from the checked object
  \<^verbatim>\<open>data\<close>. A conditional expression evaluates its condition first.
\<close>

definition shape_scale :: "special \<Rightarrow> heap \<Rightarrow> ref \<Rightarrow> error + fl \<times> fl" where
  "shape_scale sp h data =
     ebind (attr h data ''theil'') (\<lambda>th.
     ebind (if th = PNone
            then ebind (attr h data ''gini'') (gini_to_std_at sp)
            else theil_to_std_at th) (\<lambda>shape.
     ebind (attr h data ''mean'') (\<lambda>m.
     ebind (if truthy m
            then ebind (attr h data ''inc'') (\<lambda>i.
                 ebind (np_float i) (\<lambda>inc. Inr (exp_log_minus inc shape)))
            else ebind (attr h data ''inc'') (\<lambda>i. Inr (value_of i))) (\<lambda>scale.
     Inr (shape, scale)))))"

text \<open>
  The first statement of \<^verbatim>\<open>params\<close>,
  \<^verbatim>\<open>data = self.init_data.update(**kwargs).add_defaults(copy=True).check()\<close>. Each method
  call first looks the method up on the object; \<^verbatim>\<open>add_defaults\<close> calls \<^verbatim>\<open>self.update\<close> and
  \<^verbatim>\<open>check\<close> calls \<^verbatim>\<open>self._get\<close>.
\<close>

definition assemble :: "heap \<Rightarrow> LogNormal \<Rightarrow> kwargs \<Rightarrow> heap \<times> (error + ref)" where
  "assemble h self kwargs =
     (case update_kw h (init_data self) kwargs of
        (h1, Inl e) \<Rightarrow> (h1, Inl e)
      | (h1, Inr d1) \<Rightarrow>
          if shadowed h1 d1 ''add_defaults'' \<or> shadowed h1 d1 ''update''
          then (h1, Inl TypeError)
          else
            (case add_defaults h1 d1 True of
               (h2, d2) \<Rightarrow>
                 if shadowed h2 d2 ''check'' \<or> shadowed h2 d2 ''_get''
                 then (h2, Inl TypeError)
                 else (h2, check h2 d2)))"

text \<open>
  A method returns the store it leaves behind together with its result or the
  exception it raised. In \<^verbatim>\<open>params(self, **kwargs)\<close> a keyword \<^verbatim>\<open>self\<close> is an argument
  passed twice.
\<close>

definition params :: "special \<Rightarrow> heap \<Rightarrow> LogNormal \<Rightarrow> kwargs \<Rightarrow> heap \<times> (error + fl \<times> fl)" where
  "params sp h self kwargs =
     (if ''self'' \<in> set (map fst kwargs) then (h, Inl TypeError)
      else case assemble h self kwargs of
             (h', r) \<Rightarrow> (h', ebind r (\<lambda>data. shape_scale sp h' data)))"

text \<open>
  The query methods. In \<^verbatim>\<open>ppf(self, x, **kwargs)\<close>, \<^verbatim>\<open>cdf\<close> and \<^verbatim>\<open>lorenz\<close> a keyword \<^verbatim>\<open>x\<close> is
  an argument passed twice. \<^verbatim>\<open>norm.ppf(x)\<close> is nan outside \<open>[0, 1]\<close>.
\<close>

definition ppf :: "special \<Rightarrow> heap \<Rightarrow> LogNormal \<Rightarrow> real \<Rightarrow> kwargs \<Rightarrow> heap \<times> (error + fl)" where
  "ppf sp h self x kwargs =
     (if ''x'' \<in> set (map fst kwargs) then (h, Inl TypeError)
      else case params sp h self kwargs of
             (h', r) \<Rightarrow>
               (h', ebind r (\<lambda>(shape, scale). Inr (lift2 (lognorm_cdf sp x) shape scale))))"

definition cdf :: "special \<Rightarrow> heap \<Rightarrow> LogNormal \<Rightarrow> real \<Rightarrow> kwargs \<Rightarrow> heap \<times> (error + fl)" where
  "cdf sp h self x kwargs =
     (if ''x'' \<in> set (map fst kwargs) then (h, Inl TypeError)
      else case params sp h self kwargs of
             (h', r) \<Rightarrow>
               (h', ebind r (\<lambda>(shape, scale). Inr (lift2 (lognorm_cdf sp x) shape scale))))"

definition lorenz :: "special \<Rightarrow> heap \<Rightarrow> LogNormal \<Rightarrow> real \<Rightarrow> kwargs \<Rightarrow> heap \<times> (error + fl)" where
  "lorenz sp h self x kwargs =
     (if ''x'' \<in> set (map fst kwargs) then (h, Inl TypeError)
      else case params sp h self kwargs of
             (h', r) \<Rightarrow>
               (h', ebind r (\<lambda>(shape, scale).
                  Inr (case shape of
                         Special \<Rightarrow> Special
                       | Finite s \<Rightarrow>
                           if 0 \<le> x \<and> x \<le> 1 then Finite (norm_cdf sp (xsub (norm_ppf sp x) s))
                           else Special))))"

definition mean :: "special \<Rightarrow> heap \<Rightarrow> LogNormal \<Rightarrow> kwargs \<Rightarrow> heap \<times> (error + fl)" where
  "mean sp h self kwargs =
     (case params sp h self kwargs of
        (h', r) \<Rightarrow> (h', ebind r (\<lambda>(shape, scale). Inr (lift2 (lognorm_mean sp) shape scale))))"

definition median :: "special \<Rightarrow> heap \<Rightarrow> LogNormal \<Rightarrow> kwargs \<Rightarrow> heap \<times> (error + fl)" where
  "median sp h self kwargs =
     (case params sp h self kwargs of
        (h', r) \<Rightarrow> (h', ebind r (\<lambda>(shape, scale). Inr (lift2 (lognorm_median sp) shape scale))))"

definition var :: "special \<Rightarrow> heap \<Rightarrow> LogNormal \<Rightarrow> kwargs \<Rightarrow> heap \<times> (error + fl)" where
  "var sp h self kwargs =
     (case params sp h self kwargs of
        (h', r) \<Rightarrow> (h', ebind r (\<lambda>(shape, scale). Inr (lift2 (lognorm_var sp) shape scale))))"

definition std :: "special \<Rightarrow> heap \<Rightarrow> LogNormal \<Rightarrow> kwargs \<Rightarrow> heap \<times> (error + fl)" where
  "std sp h self kwargs =
     (case params sp h self kwargs of
        (h', r) \<Rightarrow> (h', ebind r (\<lambda>(shape, scale). Inr (lift2 (lognorm_std sp) shape scale))))"

section \<open>Sequences of calls\<close>

text \<open>
  A call of \<^verbatim>\<open>params\<close> or of one of the seven query methods on a \<^verbatim>\<open>LogNormal\<close>
  instance, and the store after a sequence of such calls. An exception raised by
  one call is caught by the caller, who goes on with the next.
\<close>

datatype query =
    Params kwargs
  | Ppf real kwargs
  | Cdf real kwargs
  | Lorenz real kwargs
  | Mean kwargs
  | Median kwargs
  | Var kwargs
  | Std kwargs

datatype outcome = Pair fl fl | Val fl

fun call :: "special \<Rightarrow> heap \<Rightarrow> LogNormal \<Rightarrow> query \<Rightarrow> heap \<times> (error + outcome)" where
  "call sp h self (Params kw) = map_prod id (map_sum id (\<lambda>(shape, scale). Pair shape scale)) (params sp h self kw)"
| "call sp h self (Ppf x kw) = map_prod id (map_sum id Val) (ppf sp h self x kw)"
| "call sp h self (Cdf x kw) = map_prod id (map_sum id Val) (cdf sp h self x kw)"
| "call sp h self (Lorenz x kw) = map_prod id (map_sum id Val) (lorenz sp h self x kw)"
| "call sp h self (Mean kw) = map_prod id (map_sum id Val) (mean sp h self kw)"
| "call sp h self (Median kw) = map_prod id (map_sum id Val) (median sp h self kw)"
| "call sp h self (Var kw) = map_prod id (map_sum id Val) (var sp h self kw)"
| "call sp h self (Std kw) = map_prod id (map_sum id Val) (std sp h self kw)"

text \<open>The keyword arguments of a call.\<close>

fun overrides :: "query \<Rightarrow> kwargs" where
  "overrides (Params kw) = kw"
| "overrides (Ppf x kw) = kw"
| "overrides (Cdf x kw) = kw"
| "overrides (Lorenz x kw) = kw"
| "overrides (Mean kw) = kw"
| "overrides (Median kw) = kw"
| "overrides (Var kw) = kw"
| "overrides (Std kw) = kw"

fun run :: "special \<Rightarrow> heap \<Rightarrow> LogNormal \<Rightarrow> query list \<Rightarrow> heap" where
  "run sp h self [] = h"
| "run sp h self (q # qs) = run sp (fst (call sp h self q)) self qs"

text \<open>
  The attributes of the object that \<^verbatim>\<open>params\<close> checks, given those of the baseline:
  the fields of the overrides are applied, then the defaults are filled in (used in
  the proofs only).
\<close>

definition merged :: "attrs \<Rightarrow> kwargs \<Rightarrow> attrs" where
  "merged a kwargs =
     update_loop False
       [(''inc'', PInt 1), (''mean'', PBool True), (''gini'', PNone), (''theil'', PNone)]
       (update_loop (overriding kwargs) (kw_fields kwargs) a)"

text \<open>
  Keyword arguments of a call that the model covers: their names are distinct, as
  Python has it, and none is a special name.
\<close>

definition plain_kwargs :: "kwargs \<Rightarrow> bool" where
  "plain_kwargs kwargs =
     (distinct (map fst kwargs) \<and> list_all (\<lambda>k. \<not> dunder k) (map fst kwargs))"

section \<open>A stand-in for the library\<close>

text \<open>
  To evaluate the definitions at concrete inputs the library record needs a value.
  \<open>sp_alg\<close> replaces each special function by an algebraic function: \<open>erf\<close> is an
  increasing bijection from the reals onto \<open>(-1, 1)\<close> with inverse \<open>erfinv\<close>, the normal
  distribution function and its inverse take the values \<open>0\<close> and \<open>1\<close> at the
  infinities, and the functions of the log-normal distribution depend on each of
  their arguments. Its numerical values are not those of the library.
\<close>

definition sp_alg :: special where
  "sp_alg =
     \<lparr>erf = (\<lambda>x. x / (1 + \<bar>x\<bar>)),
      erfinv = (\<lambda>g. g / (1 - \<bar>g\<bar>)),
      norm_cdf = (\<lambda>z. case z of MInf \<Rightarrow> 0 | Fin a \<Rightarrow> (1 + a / (1 + \<bar>a\<bar>)) / 2 | PInf \<Rightarrow> 1),
      norm_ppf = (\<lambda>p. if p \<le> 0 then MInf else if p \<ge> 1 then PInf
                       else Fin ((2 * p - 1) / (1 - \<bar>2 * p - 1\<bar>))),
      lognorm_cdf = (\<lambda>x shape scale.
                       if shape \<le> 0 \<or> scale \<le> 0 then Special
                       else Finite (if x \<le> 0 then 0 else x / (x + scale * (1 + shape)))),
      lognorm_mean = (\<lambda>shape scale. Finite (scale * (1 + shape\<^sup>2))),
      lognorm_median = (\<lambda>shape scale. Finite scale),
      lognorm_var = (\<lambda>shape scale. Finite (scale\<^sup>2 * shape\<^sup>2)),
      lognorm_std = (\<lambda>shape scale. Finite (scale * \<bar>shape\<bar>))\<rparr>"

section \<open>The elementary conversions\<close>

lemma sp_alg_erf_erfinv: "- 1 < g \<Longrightarrow> g < 1 \<Longrightarrow> erf sp_alg (erfinv sp_alg g) = g"
  by (simp add: sp_alg_def) (simp add: field_simps abs_if)

lemma sp_alg_erfinv_erf: "erfinv sp_alg (erf sp_alg x) = x"
  by (simp add: sp_alg_def) (simp add: field_simps abs_if)

text \<open>
  Claim C9. The elementary conversions round-trip. For \<open>g\<close> in \<open>(0, 1)\<close>,
  \<open>std_to_gini (gini_to_std g) = g\<close>, given that the library's \<open>erf\<close> inverts its
  \<open>erfinv\<close> at \<open>g\<close>; for \<open>s \<ge> 0\<close>, \<open>std_to_theil (theil_to_std s) = s\<close>. Over the
  real numbers both equations are exact.
\<close>

theorem elementary_round_trips:
  "(0 < g \<and> g < 1 \<and> erf sp (erfinv sp g) = g \<longrightarrow> std_to_gini sp (gini_to_std sp g) = g) \<and>
   (0 \<le> s \<longrightarrow> std_to_theil (theil_to_std s) = s)"
  by (simp add: std_to_gini_def gini_to_std_def std_to_theil_def theil_to_std_def)

theorem elementary_round_trips_witness:
  "std_to_gini sp_alg (gini_to_std sp_alg (1 / 2)) = 1 / 2 \<and> std_to_theil (theil_to_std 2) = 2"
proof -
  have e: "erf sp_alg (erfinv sp_alg (1 / 2)) = 1 / 2"
    by (rule sp_alg_erf_erfinv) simp_all
  show ?thesis
    using elementary_round_trips [of "1 / 2" sp_alg 2] e by simp
qed

section \<open>Conversions between Gini and Theil\<close>

lemma empirical_root:
  fixes a b c t :: real
  assumes "0 < a" and "0 \<le> b" and "0 \<le> t"
  shows "(- b + sqrt (b\<^sup>2 - 4 * a * (c - (a * t\<^sup>2 + b * t + c)))) / (2 * a) = t"
proof -
  have "b\<^sup>2 - 4 * a * (c - (a * t\<^sup>2 + b * t + c)) = (2 * a * t + b)\<^sup>2"
    by (simp add: power2_eq_square algebra_simps)
  moreover have "0 \<le> 2 * a * t + b"
    using assms by simp
  ultimately have "sqrt (b\<^sup>2 - 4 * a * (c - (a * t\<^sup>2 + b * t + c))) = 2 * a * t + b"
    by simp
  then show ?thesis using assms(1) by simp
qed

lemma empirical_eval:
  fixes a b c T :: real
  assumes "0 < a" and "0 \<le> b\<^sup>2 - 4 * a * (c - T)"
  shows "a * ((- b + sqrt (b\<^sup>2 - 4 * a * (c - T))) / (2 * a))\<^sup>2
         + b * ((- b + sqrt (b\<^sup>2 - 4 * a * (c - T))) / (2 * a)) + c = T"
proof -
  define d where "d = sqrt (b\<^sup>2 - 4 * a * (c - T))"
  have d2: "d * d = b * b - 4 * a * (c - T)"
    using assms(2) by (simp add: d_def power2_eq_square)
  have "a * ((- b + d) / (2 * a))\<^sup>2 + b * ((- b + d) / (2 * a)) + c
      = (d * d - b * b) / (4 * a) + c"
    using assms(1) by (simp add: power2_eq_square field_simps)
  also have "\<dots> = T"
    using assms(1) by (simp add: d2 field_simps)
  finally show ?thesis by (simp add: d_def)
qed

lemma sqrt_four_sq:
  fixes e :: real
  assumes "0 \<le> e"
  shows "sqrt (2 * ((2 * e)\<^sup>2 / 2)) = 2 * e"
proof -
  have "2 * ((2 * e)\<^sup>2 / 2) = (2 * e)\<^sup>2" by simp
  then have "sqrt (2 * ((2 * e)\<^sup>2 / 2)) = sqrt ((2 * e)\<^sup>2)" by (rule arg_cong)
  also have "\<dots> = \<bar>2 * e\<bar>" by (rule real_sqrt_abs)
  also have "\<dots> = 2 * e" using assms by simp
  finally show ?thesis .
qed

lemma gini_theil_gini:
  assumes inv: "\<forall>g. 0 < g \<and> g < 1 \<longrightarrow> 0 < erfinv sp g \<and> erf sp (erfinv sp g) = g"
    and r: "gini_to_theil sp g e = Inr t"
  shows "theil_to_gini sp t e = Inr g"
proof -
  have g: "0 < g" "g < 1"
    using r by (auto simp: gini_to_theil_def split: if_splits)
  define x where "x = erfinv sp g"
  have x: "0 < x" "erf sp x = g"
    using inv g by (simp_all add: x_def)
  define T where "T = std_to_theil (gini_to_std sp g)"
  have T: "T = (2 * x)\<^sup>2 / 2"
    by (simp add: T_def std_to_theil_def gini_to_std_def x_def)
  have bk: "std_to_gini sp (theil_to_std T) = g"
    using x sqrt_four_sq [of x] by (simp add: T std_to_gini_def theil_to_std_def)
  show ?thesis
  proof (cases e)
    case False
    have t: "t = T" "0 < t" "t < MAX_THEIL"
      using r g False by (auto simp: gini_to_theil_def Let_def T_def split: if_splits)
    show ?thesis
      using False t g bk by (simp add: theil_to_gini_def Let_def)
  next
    case True
    let ?a = "216 / 1000 :: real" and ?b = "991 / 1000 :: real" and ?c = "3 / 1000 :: real"
    have t: "t = (- ?b + sqrt (?b\<^sup>2 - 4 * ?a * (?c - T))) / (2 * ?a)" "0 < t" "t < MAX_THEIL"
      using r g True
      by (auto simp: gini_to_theil_def Let_def T_def theil_empirical_constants_def
          split: if_splits)
    have "0 \<le> T" by (simp add: T)
    then have D: "0 \<le> ?b\<^sup>2 - 4 * ?a * (?c - T)"
      by (simp add: power2_eq_square)
    have "?a * t\<^sup>2 + ?b * t + ?c = T"
      unfolding t(1) by (rule empirical_eval [OF _ D]) simp
    then show ?thesis
      using True t(2,3) g bk
      by (simp add: theil_to_gini_def Let_def theil_empirical_constants_def)
  qed
qed

lemma theil_gini_theil:
  assumes fwd: "\<forall>x. 0 < x \<longrightarrow> 0 < erf sp x \<and> erf sp x < 1 \<and> erfinv sp (erf sp x) = x"
    and t: "0 < t" "t < MAX_THEIL"
  shows "\<exists>g. theil_to_gini sp t e = Inr g \<and> gini_to_theil sp g e = Inr t"
proof -
  let ?a = "216 / 1000 :: real" and ?b = "991 / 1000 :: real" and ?c = "3 / 1000 :: real"
  define T where "T = (if e then ?a * t\<^sup>2 + ?b * t + ?c else t)"
  have Tpos: "0 < T"
  proof (cases e)
    case True
    have "0 < ?a * t\<^sup>2 + ?b * t + ?c"
      using t(1) by (intro add_nonneg_pos add_nonneg_nonneg) simp_all
    then show ?thesis using True by (simp add: T_def)
  next
    case False
    then show ?thesis using t(1) by (simp add: T_def)
  qed
  define x where "x = 1 / 2 * theil_to_std T"
  have xpos: "0 < x"
    using Tpos by (simp add: x_def theil_to_std_def)
  define g where "g = erf sp x"
  have g: "0 < g" "g < 1" "erfinv sp g = x"
    using fwd xpos by (simp_all add: g_def)
  have gx: "std_to_gini sp (theil_to_std T) = g"
    by (simp add: g_def x_def std_to_gini_def)
  have fw: "theil_to_gini sp t e = Inr g"
    using t g(1,2) gx [unfolded T_def]
    by (cases e) (simp_all add: theil_to_gini_def Let_def theil_empirical_constants_def)
  have "(2 * x)\<^sup>2 / 2 = T"
    using Tpos by (simp add: x_def theil_to_std_def)
  then have TT: "std_to_theil (gini_to_std sp g) = T"
    by (simp add: std_to_theil_def gini_to_std_def g(3))
  have bw: "gini_to_theil sp g e = Inr t"
  proof (cases e)
    case False
    then show ?thesis
      using g(1,2) t TT by (simp add: gini_to_theil_def Let_def T_def)
  next
    case True
    have "(- ?b + sqrt (?b\<^sup>2 - 4 * ?a * (?c - (?a * t\<^sup>2 + ?b * t + ?c)))) / (2 * ?a) = t"
      by (rule empirical_root) (use t(1) in simp_all)
    then show ?thesis
      using True g(1,2) t TT
      by (simp add: gini_to_theil_def Let_def T_def theil_empirical_constants_def)
  qed
  show ?thesis using fw bw by blast
qed

text \<open>
  Claim C2. Floats are real numbers here, so the round trips are exact, and \<open>erf\<close> and
  \<open>erfinv\<close> of the library are taken to be what they are in mathematics on the
  arguments that occur: \<open>erf\<close> maps the positive numbers into \<open>(0, 1)\<close>, \<open>erfinv\<close> maps
  \<open>(0, 1)\<close> to positive numbers, and each undoes the other there. Then, with and without
  the empirical relationship: whenever \<^verbatim>\<open>gini_to_theil\<close> returns \<open>t\<close> at \<open>g\<close>,
  \<^verbatim>\<open>theil_to_gini\<close> returns \<open>g\<close> at \<open>t\<close>; and for every \<open>t'\<close> inside \<open>(0, MAX_THEIL)\<close>,
  \<^verbatim>\<open>theil_to_gini\<close> returns some \<open>g'\<close> at which \<^verbatim>\<open>gini_to_theil\<close> returns \<open>t'\<close>.
\<close>

theorem gini_theil_round_trips:
  assumes "\<forall>x. 0 < x \<longrightarrow> 0 < erf sp x \<and> erf sp x < 1 \<and> erfinv sp (erf sp x) = x"
    and "\<forall>g. 0 < g \<and> g < 1 \<longrightarrow> 0 < erfinv sp g \<and> erf sp (erfinv sp g) = g"
  shows "(gini_to_theil sp g e = Inr t \<longrightarrow> theil_to_gini sp t e = Inr g) \<and>
         (0 < t' \<and> t' < MAX_THEIL \<longrightarrow>
            (\<exists>g'. theil_to_gini sp t' e = Inr g' \<and> gini_to_theil sp g' e = Inr t'))"
  using gini_theil_gini [OF assms(2)] theil_gini_theil [OF assms(1)] by blast

lemma sp_alg_erf_range: "0 < x \<Longrightarrow> 0 < erf sp_alg x \<and> erf sp_alg x < 1"
  by (simp add: sp_alg_def)

lemma sp_alg_erfinv_pos: "0 < g \<Longrightarrow> g < 1 \<Longrightarrow> 0 < erfinv sp_alg g"
  by (simp add: sp_alg_def)

theorem gini_theil_round_trips_witness:
  "gini_to_theil sp_alg (1 / 2) False = Inr 2 \<and> theil_to_gini sp_alg 2 False = Inr (1 / 2) \<and>
   (\<exists>g'. theil_to_gini sp_alg 2 True = Inr g' \<and> gini_to_theil sp_alg g' True = Inr 2)"
proof -
  have f: "\<forall>x. 0 < x \<longrightarrow> 0 < erf sp_alg x \<and> erf sp_alg x < 1 \<and> erfinv sp_alg (erf sp_alg x) = x"
    using sp_alg_erf_range sp_alg_erfinv_erf by blast
  have i: "\<forall>g. 0 < g \<and> g < 1 \<longrightarrow> 0 < erfinv sp_alg g \<and> erf sp_alg (erfinv sp_alg g) = g"
    using sp_alg_erfinv_pos sp_alg_erf_erfinv by auto
  have v: "gini_to_theil sp_alg (1 / 2) False = Inr 2"
    by (simp add: gini_to_theil_def Let_def gini_to_std_def std_to_theil_def sp_alg_def
        MAX_THEIL_def)
  have m: "0 < (2::real) \<and> 2 < MAX_THEIL"
    by (simp add: MAX_THEIL_def)
  show ?thesis
    using gini_theil_round_trips [OF f i, of "1 / 2" False 2 2]
      gini_theil_round_trips [OF f i, of "1 / 2" True 2 2] v m
    by simp
qed

section \<open>Domain errors of the conversions\<close>

lemma gini_to_theil_outcome:
  "(\<exists>t. gini_to_theil sp g e = Inr t \<and> 0 < g \<and> g < 1 \<and> 0 < t \<and> t < MAX_THEIL) \<or>
   (\<exists>m. gini_to_theil sp g e = Inl (ValueError m))"
  by (simp add: gini_to_theil_def Let_def)

lemma theil_to_gini_outcome:
  "(\<exists>g. theil_to_gini sp t e = Inr g \<and> 0 < t \<and> t < MAX_THEIL \<and> 0 < g \<and> g < 1) \<or>
   (\<exists>m. theil_to_gini sp t e = Inl (ValueError m))"
  by (simp add: theil_to_gini_def Let_def)

text \<open>
  Claim C3, as the source has it. The conversions raise \<^verbatim>\<open>ValueError\<close> (the module has no
  exception class of its own). \<^verbatim>\<open>gini_to_theil\<close> raises it with the message
  \<^verbatim>\<open>Gini not within (0, 1)\<close> for every \<open>g\<close> that is not strictly inside \<open>(0, 1)\<close>, and raises
  it when the result it derives is not strictly inside \<open>(0, MAX_THEIL)\<close>, so that what
  it returns is inside. \<^verbatim>\<open>theil_to_gini\<close> raises it for every \<open>t\<close> that is not strictly
  inside \<open>(0, MAX_THEIL)\<close>, where \<open>MAX_THEIL\<close> is 6.64. At an array the two functions
  raise as soon as one element violates the bound of the argument.
\<close>

theorem conversion_domain_errors:
  "(\<not> (0 < g \<and> g < 1) \<longrightarrow> gini_to_theil sp g e = Inl (ValueError ''Gini not within (0, 1)'')) \<and>
   (\<not> (0 < std_to_theil (gini_to_std sp g) \<and> std_to_theil (gini_to_std sp g) < MAX_THEIL) \<longrightarrow>
      (\<exists>m. gini_to_theil sp g False = Inl (ValueError m))) \<and>
   (gini_to_theil sp g e = Inr r \<longrightarrow> 0 < r \<and> r < MAX_THEIL) \<and>
   ((\<exists>r. gini_to_theil sp g e = Inr r) \<or> (\<exists>m. gini_to_theil sp g e = Inl (ValueError m))) \<and>
   (\<not> (0 < t \<and> t < MAX_THEIL) \<longrightarrow> (\<exists>m. theil_to_gini sp t e = Inl (ValueError m))) \<and>
   ((\<exists>r. theil_to_gini sp t e = Inr r) \<or> (\<exists>m. theil_to_gini sp t e = Inl (ValueError m))) \<and>
   MAX_THEIL = 664 / 100 \<and>
   ((\<exists>x\<in>set gs. \<not> (0 < x \<and> x < 1)) \<longrightarrow>
      gini_to_theil_arr sp gs e = Inl (ValueError ''Gini not within (0, 1)'')) \<and>
   ((\<exists>x\<in>set ts. \<not> (0 < x \<and> x < MAX_THEIL)) \<longrightarrow>
      (\<exists>m. theil_to_gini_arr sp ts e = Inl (ValueError m)))"
proof -
  have 1: "\<not> (0 < g \<and> g < 1) \<longrightarrow> gini_to_theil sp g e = Inl (ValueError ''Gini not within (0, 1)'')"
    by (simp add: gini_to_theil_def)
  have 2: "\<not> (0 < std_to_theil (gini_to_std sp g) \<and> std_to_theil (gini_to_std sp g) < MAX_THEIL) \<longrightarrow>
      (\<exists>m. gini_to_theil sp g False = Inl (ValueError m))"
    by (simp add: gini_to_theil_def Let_def)
  have 3: "gini_to_theil sp g e = Inr r \<longrightarrow> 0 < r \<and> r < MAX_THEIL"
    using gini_to_theil_outcome [of sp g e] by auto
  have 4: "(\<exists>r. gini_to_theil sp g e = Inr r) \<or> (\<exists>m. gini_to_theil sp g e = Inl (ValueError m))"
    using gini_to_theil_outcome [of sp g e] by auto
  have 5: "\<not> (0 < t \<and> t < MAX_THEIL) \<longrightarrow> (\<exists>m. theil_to_gini sp t e = Inl (ValueError m))"
    by (simp add: theil_to_gini_def)
  have 6: "(\<exists>r. theil_to_gini sp t e = Inr r) \<or> (\<exists>m. theil_to_gini sp t e = Inl (ValueError m))"
    using theil_to_gini_outcome [of sp t e] by auto
  have 7: "MAX_THEIL = 664 / 100"
    by (rule MAX_THEIL_def)
  have 8: "(\<exists>x\<in>set gs. \<not> (0 < x \<and> x < 1)) \<longrightarrow>
      gini_to_theil_arr sp gs e = Inl (ValueError ''Gini not within (0, 1)'')"
    by (auto simp: gini_to_theil_arr_def list_all_iff)
  have 9: "(\<exists>x\<in>set ts. \<not> (0 < x \<and> x < MAX_THEIL)) \<longrightarrow>
      (\<exists>m. theil_to_gini_arr sp ts e = Inl (ValueError m))"
    by (auto simp: theil_to_gini_arr_def list_all_iff)
  show ?thesis
    using 1 2 3 4 5 6 7 8 9 by blast
qed

theorem conversion_domain_errors_witness:
  "gini_to_theil sp_alg 0 False = Inl (ValueError ''Gini not within (0, 1)'') \<and>
   gini_to_theil sp_alg 1 False = Inl (ValueError ''Gini not within (0, 1)'') \<and>
   gini_to_theil sp_alg (3 / 2) True = Inl (ValueError ''Gini not within (0, 1)'') \<and>
   gini_to_theil sp_alg (- 1 / 10) True = Inl (ValueError ''Gini not within (0, 1)'') \<and>
   std_to_theil (gini_to_std sp_alg (9 / 10)) = 162 \<and>
   (\<exists>m. gini_to_theil sp_alg (9 / 10) False = Inl (ValueError m)) \<and>
   (\<exists>m. theil_to_gini sp_alg 0 False = Inl (ValueError m)) \<and>
   (\<exists>m. theil_to_gini sp_alg (664 / 100) False = Inl (ValueError m)) \<and>
   (\<exists>m. theil_to_gini sp_alg 10 True = Inl (ValueError m)) \<and>
   gini_to_theil_arr sp_alg [1 / 2, 3 / 2] False = Inl (ValueError ''Gini not within (0, 1)'') \<and>
   (\<exists>m. theil_to_gini_arr sp_alg [1, 10] False = Inl (ValueError m))"
proof -
  note t = conversion_domain_errors [where sp = sp_alg]
  have d: "std_to_theil (gini_to_std sp_alg (9 / 10)) = 162"
    by (simp add: std_to_theil_def gini_to_std_def sp_alg_def)
  have 1: "gini_to_theil sp_alg 0 False = Inl (ValueError ''Gini not within (0, 1)'')"
    using t [of 0 False] by simp
  have 2: "gini_to_theil sp_alg 1 False = Inl (ValueError ''Gini not within (0, 1)'')"
    using t [of 1 False] by simp
  have 3: "gini_to_theil sp_alg (3 / 2) True = Inl (ValueError ''Gini not within (0, 1)'')"
    using t [of "3 / 2" True] by simp
  have 4: "gini_to_theil sp_alg (- 1 / 10) True = Inl (ValueError ''Gini not within (0, 1)'')"
    using t [of "- 1 / 10" True] by simp
  have 5: "\<exists>m. gini_to_theil sp_alg (9 / 10) False = Inl (ValueError m)"
    using t [of "9 / 10" False] d by (simp add: MAX_THEIL_def)
  have 6: "\<exists>m. theil_to_gini sp_alg 0 False = Inl (ValueError m)"
    using t [where t = 0 and e = False] by simp
  have 7: "\<exists>m. theil_to_gini sp_alg (664 / 100) False = Inl (ValueError m)"
    using t [where t = "664 / 100" and e = False] by (simp add: MAX_THEIL_def)
  have 8: "\<exists>m. theil_to_gini sp_alg 10 True = Inl (ValueError m)"
    using t [where t = 10 and e = True] by (simp add: MAX_THEIL_def)
  have 9: "gini_to_theil_arr sp_alg [1 / 2, 3 / 2] False = Inl (ValueError ''Gini not within (0, 1)'')"
  proof -
    have "\<exists>x\<in>set [1 / 2, 3 / 2 :: real]. \<not> (0 < x \<and> x < 1)"
      by (intro bexI [of _ "3 / 2"]) simp_all
    then show ?thesis
      using t [where gs = "[1 / 2, 3 / 2]" and e = False] by blast
  qed
  have 10: "\<exists>m. theil_to_gini_arr sp_alg [1, 10] False = Inl (ValueError m)"
  proof -
    have "\<exists>x\<in>set [1, 10 :: real]. \<not> (0 < x \<and> x < MAX_THEIL)"
      by (intro bexI [of _ 10]) (simp_all add: MAX_THEIL_def)
    then show ?thesis
      using t [where ts = "[1, 10]" and e = False] by blast
  qed
  show ?thesis
    using d 1 2 3 4 5 6 7 8 9 10 by blast
qed

text \<open>
  The claim as the specification words it does not hold: the exception is a
  \<^verbatim>\<open>ValueError\<close> and the messages are not the quoted ones.
\<close>

theorem conversion_domain_errors_counterexample:
  "gini_to_theil sp_alg 0 False = Inl (ValueError ''Gini not within (0, 1)'') \<and>
   gini_to_theil sp_alg 0 False \<noteq> Inl (ValueError ''Gini not within (0,1)'') \<and>
   theil_to_gini sp_alg 10 False = Inl (ValueError ''Theil not within (0, 2.88)'') \<and>
   theil_to_gini sp_alg 10 False \<noteq> Inl (ValueError ''Theil not within (0, MAX_THEIL)'')"
  by (simp add: gini_to_theil_def theil_to_gini_def MAX_THEIL_def)

section \<open>Updating a configuration object\<close>

lemma getattr_is_None_local:
  "getattr_is_None h x k = getattr_is_None [h ! x] 0 k"
  by (simp add: getattr_is_None_def)

lemma fold_update_loop:
  "x < length h \<Longrightarrow>
   fold (\<lambda>(k, v) h'. if override \<or> getattr_is_None h' x k then setattr h' x k v else h') kwargs h
     = h[x := update_loop override kwargs (h ! x)]"
proof (induction kwargs arbitrary: h)
  case Nil
  then show ?case by simp
next
  case (Cons kv kwargs)
  obtain k v where kv: "kv = (k, v)" by (cases kv)
  let ?step = "\<lambda>(k, v) h'. if override \<or> getattr_is_None h' x k then setattr h' x k v else h'"
  show ?case
  proof (cases "override \<or> getattr_is_None h x k")
    case True
    have len: "x < length (setattr h x k v)" using Cons.prems by (simp add: setattr_def)
    have "fold ?step (kv # kwargs) h = fold ?step kwargs (setattr h x k v)"
      using True by (simp add: kv)
    also have "\<dots> = (setattr h x k v)[x := update_loop override kwargs (setattr h x k v ! x)]"
      by (rule Cons.IH [OF len])
    also have "\<dots> = h[x := update_loop override kwargs ((h ! x)(k \<mapsto> v))]"
      using Cons.prems by (simp add: setattr_def)
    also have "\<dots> = h[x := update_loop override (kv # kwargs) (h ! x)]"
      using True by (simp add: kv getattr_is_None_def)
    finally show ?thesis .
  next
    case False
    have "fold ?step (kv # kwargs) h = fold ?step kwargs h"
      using False by (simp add: kv)
    also have "\<dots> = h[x := update_loop override kwargs (h ! x)]"
      by (rule Cons.IH [OF Cons.prems])
    also have "\<dots> = h[x := update_loop override (kv # kwargs) (h ! x)]"
      using False by (simp add: kv getattr_is_None_def)
    finally show ?thesis .
  qed
qed

lemma update_copy:
  "self < length h \<Longrightarrow>
   update h self True override kwargs = (h @ [update_loop override kwargs (h ! self)], length h)"
  by (simp add: update_def deepcopy_def fold_update_loop)

lemma update_in_place:
  "self < length h \<Longrightarrow>
   update h self False override kwargs = (h[self := update_loop override kwargs (h ! self)], self)"
  by (simp add: update_def fold_update_loop)

lemma update_loop_other: "k \<notin> fst ` set kwargs \<Longrightarrow> update_loop override kwargs a k = a k"
  by (induction kwargs arbitrary: a) (auto split: if_splits)

lemma update_loop_applied:
  "distinct (map fst kwargs) \<Longrightarrow> (k, v) \<in> set kwargs \<Longrightarrow>
   override \<or> getattr_is_None [a] 0 k \<Longrightarrow> update_loop override kwargs a k = Some v"
proof (induction kwargs arbitrary: a)
  case Nil
  then show ?case by simp
next
  case (Cons kv kwargs)
  obtain k' v' where kv: "kv = (k', v')" by (cases kv)
  show ?case
  proof (cases "(k, v) = (k', v')")
    case True
    then have "k \<notin> fst ` set kwargs" using Cons.prems(1) kv by auto
    then show ?thesis
      using True Cons.prems(3) kv by (auto simp: update_loop_other getattr_is_None_def)
  next
    case False
    then have mem: "(k, v) \<in> set kwargs" using Cons.prems(2) kv by auto
    then have ne: "k \<noteq> k'" using Cons.prems(1) kv by force
    have d: "distinct (map fst kwargs)" using Cons.prems(1) by simp
    have "update_loop override kwargs (a(k' \<mapsto> v')) k = Some v"
      by (rule Cons.IH [OF d mem]) (use Cons.prems(3) ne in \<open>simp add: getattr_is_None_def\<close>)
    moreover have "update_loop override kwargs a k = Some v"
      by (rule Cons.IH [OF d mem]) (rule Cons.prems(3))
    ultimately show ?thesis by (cases override) (auto simp: kv)
  qed
qed

lemma update_loop_kept:
  "\<not> getattr_is_None [a] 0 k \<Longrightarrow> update_loop False kwargs a k = a k"
proof (induction kwargs arbitrary: a)
  case Nil
  then show ?case by simp
next
  case (Cons kv kwargs)
  obtain k' v' where kv: "kv = (k', v')" by (cases kv)
  show ?case
  proof (cases "getattr_is_None [a] 0 k'")
    case True
    then have ne: "k' \<noteq> k" using Cons.prems by auto
    then have same: "(a(k' \<mapsto> v')) k = a k" by simp
    have "update_loop False kwargs (a(k' \<mapsto> v')) k = (a(k' \<mapsto> v')) k"
      by (rule Cons.IH) (use Cons.prems ne in \<open>simp add: getattr_is_None_def\<close>)
    then show ?thesis using True same by (simp add: kv getattr_is_None_def)
  next
    case False
    have "update_loop False kwargs a k = a k"
      by (rule Cons.IH) (rule Cons.prems)
    then show ?thesis using False by (simp add: kv getattr_is_None_def)
  qed
qed

text \<open>
  Claim C5. Let \<open>update\<close> be called on an existing object \<open>self\<close> with fields of
  distinct names, and let it return the object \<open>x\<close> in the store \<open>h'\<close>. The names of the
  fields are not \<^verbatim>\<open>self\<close>, \<^verbatim>\<open>copy\<close> or \<^verbatim>\<open>override\<close> (these keywords are the parameters of
  \<^verbatim>\<open>update\<close>), and neither they nor the attributes of the receiver are special names.
  \<^item> With \<open>copy\<close>, \<open>x\<close> is a new object, and every object that existed before the
    call, the receiver among them, has the attributes it had.
  \<^item> Without \<open>copy\<close>, \<open>x\<close> is the receiver itself and every other object is unchanged.
  \<^item> In both cases the attributes of \<open>x\<close> are those of the receiver before the call
    with the fields applied: an attribute that is not named keeps its value; with
    \<open>override\<close> every named attribute has the supplied value; without \<open>override\<close> a
    named attribute that was unset (\<^verbatim>\<open>getattr(x, k, None)\<close> is \<^verbatim>\<open>None\<close>: it is missing or
    holds \<^verbatim>\<open>None\<close>) has the supplied value and every attribute that was set keeps its
    value. The name of a method counts as set: without \<open>override\<close> a field of that name
    is not applied.
\<close>

theorem update_copy_override:
  assumes "self < length h" and "distinct (map fst kwargs)"
    and "\<forall>k\<in>fst ` set kwargs. \<not> dunder k \<and> k \<notin> {''self'', ''copy'', ''override''}"
    and "\<forall>k. (h ! self) k \<noteq> None \<longrightarrow> \<not> dunder k"
    and "update h self copy override kwargs = (h', x)"
  shows
    "(copy \<longrightarrow> x \<noteq> self \<and> x = length h \<and> length h' = Suc (length h) \<and>
        (\<forall>r<length h. h' ! r = h ! r)) \<and>
     (\<not> copy \<longrightarrow> x = self \<and> length h' = length h \<and>
        (\<forall>r<length h. r \<noteq> self \<longrightarrow> h' ! r = h ! r)) \<and>
     (\<forall>k. k \<notin> fst ` set kwargs \<longrightarrow> (h' ! x) k = (h ! self) k) \<and>
     (override \<longrightarrow> (\<forall>k v. (k, v) \<in> set kwargs \<longrightarrow> (h' ! x) k = Some v)) \<and>
     (\<not> override \<longrightarrow>
        (\<forall>k v. (k, v) \<in> set kwargs \<and> getattr_is_None h self k \<longrightarrow> (h' ! x) k = Some v) \<and>
        (\<forall>k. \<not> getattr_is_None h self k \<longrightarrow> (h' ! x) k = (h ! self) k))"
proof -
  let ?a = "update_loop override kwargs (h ! self)"
  have res: "(h', x) = (if copy then (h @ [?a], length h) else (h[self := ?a], self))"
  proof (cases copy)
    case True
    then show ?thesis
      using assms(5) update_copy [OF assms(1), of override kwargs] by auto
  next
    case False
    then show ?thesis
      using assms(5) update_in_place [OF assms(1), of override kwargs] by auto
  qed
  have obj: "h' ! x = ?a"
    using res assms(1) by (cases copy) simp_all
  have frame_copy: "copy \<longrightarrow> x \<noteq> self \<and> x = length h \<and> length h' = Suc (length h) \<and>
        (\<forall>r<length h. h' ! r = h ! r)"
    using res assms(1) by (auto simp: nth_append)
  have frame_in_place: "\<not> copy \<longrightarrow> x = self \<and> length h' = length h \<and>
        (\<forall>r<length h. r \<noteq> self \<longrightarrow> h' ! r = h ! r)"
    using res by auto
  have other: "\<forall>k. k \<notin> fst ` set kwargs \<longrightarrow> (h' ! x) k = (h ! self) k"
    by (simp add: obj update_loop_other)
  have forced: "override \<longrightarrow> (\<forall>k v. (k, v) \<in> set kwargs \<longrightarrow> (h' ! x) k = Some v)"
    using assms(2) by (simp add: obj update_loop_applied)
  have filled: "\<not> override \<longrightarrow>
        (\<forall>k v. (k, v) \<in> set kwargs \<and> getattr_is_None h self k \<longrightarrow> (h' ! x) k = Some v)"
    using assms(2) getattr_is_None_local [of h self] by (auto simp: obj update_loop_applied)
  have kept: "\<not> override \<longrightarrow> (\<forall>k. \<not> getattr_is_None h self k \<longrightarrow> (h' ! x) k = (h ! self) k)"
    using getattr_is_None_local [of h self] by (auto simp: obj update_loop_kept)
  show ?thesis
    using frame_copy frame_in_place other forced filled kept by blast
qed

theorem update_copy_override_witness:
  "snd (update [[''gini'' \<mapsto> PNum (3 / 10)]] 0 True False
          [(''gini'', PNum (1 / 2)), (''inc'', PInt 2), (''check'', PInt 5)]) = 1 \<and>
   fst (update [[''gini'' \<mapsto> PNum (3 / 10)]] 0 True False
          [(''gini'', PNum (1 / 2)), (''inc'', PInt 2), (''check'', PInt 5)]) ! 0
     = [''gini'' \<mapsto> PNum (3 / 10)] \<and>
   (fst (update [[''gini'' \<mapsto> PNum (3 / 10)]] 0 True False
          [(''gini'', PNum (1 / 2)), (''inc'', PInt 2), (''check'', PInt 5)]) ! 1) ''gini''
     = Some (PNum (3 / 10)) \<and>
   (fst (update [[''gini'' \<mapsto> PNum (3 / 10)]] 0 True False
          [(''gini'', PNum (1 / 2)), (''inc'', PInt 2), (''check'', PInt 5)]) ! 1) ''inc''
     = Some (PInt 2) \<and>
   (fst (update [[''gini'' \<mapsto> PNum (3 / 10)]] 0 True False
          [(''gini'', PNum (1 / 2)), (''inc'', PInt 2), (''check'', PInt 5)]) ! 1) ''check''
     = None"
proof -
  let ?h = "[[''gini'' \<mapsto> PNum (3 / 10)]]"
  let ?kw = "[(''gini'', PNum (1 / 2)), (''inc'', PInt 2), (''check'', PInt 5)]"
  let ?u = "update ?h 0 True False ?kw"
  have a1: "(0::nat) < length ?h" by simp
  have a2: "distinct (map fst ?kw)" by simp
  have a3: "\<forall>k\<in>fst ` set ?kw. \<not> dunder k \<and> k \<notin> {''self'', ''copy'', ''override''}"
    by (simp add: dunder_def)
  have a4: "\<forall>k. (?h ! 0) k \<noteq> None \<longrightarrow> \<not> dunder k"
    by (simp add: dunder_def)
  have a5: "?u = (fst ?u, snd ?u)" by simp
  note t = update_copy_override [OF a1 a2 a3 a4 a5]
  have x: "snd ?u = 1" and old: "fst ?u ! 0 = ?h ! 0"
    using t by simp_all
  have g: "\<not> getattr_is_None ?h 0 ''gini''" and i: "getattr_is_None ?h 0 ''inc''"
    and c: "\<not> getattr_is_None ?h 0 ''check''"
    by (simp_all add: getattr_is_None_def class_methods_def)
  have mem: "(''inc'', PInt 2) \<in> set ?kw" by simp
  have "(fst ?u ! snd ?u) ''gini'' = (?h ! 0) ''gini''"
    using t g by blast
  moreover have "(fst ?u ! snd ?u) ''inc'' = Some (PInt 2)"
    using t i mem by blast
  moreover have "(fst ?u ! snd ?u) ''check'' = (?h ! 0) ''check''"
    using t c by blast
  ultimately show ?thesis
    using x old by simp
qed

section \<open>Validation and derivation of the parameters\<close>

lemma check_eq:
  "check h d =
     (if getattr h d ''theil'' = PNone \<and> getattr h d ''gini'' = PNone
      then Inl (ValueError ''Must use either theil or gini'')
      else if getattr h d ''theil'' \<noteq> PNone \<and> getattr h d ''gini'' \<noteq> PNone
      then Inl (ValueError ''Cannot use both theil and gini'')
      else if getattr h d ''inc'' = PNone
      then Inl (ValueError ''Must declare value for inc'')
      else if getattr h d ''mean'' = PNone
      then Inl (ValueError ''Must declare value for mean'')
      else Inr d)"
  by (simp add: check_def LogNormalData_get_def)

lemma getattr_local: "getattr h x k = getattr [h ! x] 0 k"
  by (simp add: getattr_def)

lemma attr_local: "attr h x k = attr [h ! x] 0 k"
  by (simp add: attr_def)

lemma check_local: "check h x = ebind (check [h ! x] 0) (\<lambda>_. Inr x)"
  by (simp add: check_eq getattr_local [of h x])

lemma shape_scale_local: "shape_scale sp h x = shape_scale sp [h ! x] 0"
  by (simp add: shape_scale_def attr_local [of h x] cong del: if_weak_cong)

lemma ebind_assoc: "ebind (ebind r f) g = ebind r (\<lambda>x. ebind (f x) g)"
  by (cases r) simp_all

lemma add_defaults_copy:
  "x < length h \<Longrightarrow>
   add_defaults h x True =
     (h @ [update_loop False [(''inc'', PInt 1), (''mean'', PBool True),
                              (''gini'', PNone), (''theil'', PNone)] (h ! x)], length h)"
  by (simp add: add_defaults_def update_copy)

lemma merged_methods:
  "k \<in> {''check'', ''_get'', ''update'', ''add_defaults''} \<Longrightarrow>
   merged a kwargs k = update_loop (overriding kwargs) (kw_fields kwargs) a k"
  unfolding merged_def by (rule update_loop_other) auto

text \<open>
  The first statement of \<open>params\<close> in closed form: the stores it can leave behind and
  its result, in terms of the attributes of the baseline.
\<close>

lemma assemble_from_update:
  assumes u: "update h (init_data self) (copies kwargs) (overriding kwargs) (kw_fields kwargs)
                = (h1, d1)"
    and d1: "d1 < length h1"
    and a2: "a2 = update_loop False [(''inc'', PInt 1), (''mean'', PBool True),
                                    (''gini'', PNone), (''theil'', PNone)] (h1 ! d1)"
  shows "assemble h self kwargs =
     (if (h ! init_data self) ''update'' \<noteq> None \<or> ''self'' \<in> set (map fst kwargs)
      then (h, Inl TypeError)
      else if (h1 ! d1) ''add_defaults'' \<noteq> None \<or> (h1 ! d1) ''update'' \<noteq> None
      then (h1, Inl TypeError)
      else if a2 ''check'' \<noteq> None \<or> a2 ''_get'' \<noteq> None
      then (h1 @ [a2], Inl TypeError)
      else (h1 @ [a2], ebind (check [a2] 0) (\<lambda>_. Inr (length h1))))"
proof -
  have ad: "add_defaults h1 d1 True = (h1 @ [a2], length h1)"
    unfolding add_defaults_copy [OF d1] a2 by (rule refl)
  have c: "check (h1 @ [a2]) (length h1) = ebind (check [a2] 0) (\<lambda>_. Inr (length h1))"
    by (subst check_local) simp
  show ?thesis
  proof (cases "(h ! init_data self) ''update'' \<noteq> None \<or> ''self'' \<in> set (map fst kwargs)")
    case True
    then show ?thesis
      by (simp add: assemble_def update_kw_def shadowed_def)
  next
    case False
    have uk: "update_kw h (init_data self) kwargs = (h1, Inr d1)"
      using False by (simp add: update_kw_def shadowed_def u)
    show ?thesis
      unfolding assemble_def uk using False by (simp add: ad c shadowed_def)
  qed
qed

lemma assemble_eq:
  assumes "init_data self < length h"
  shows "assemble h self kwargs =
     (let d = init_data self;
          a1 = update_loop (overriding kwargs) (kw_fields kwargs) (h ! d);
          a2 = merged (h ! d) kwargs;
          h1 = (if copies kwargs then h @ [a1] else h[d := a1])
      in if (h ! d) ''update'' \<noteq> None \<or> ''self'' \<in> set (map fst kwargs)
         then (h, Inl TypeError)
         else if a1 ''add_defaults'' \<noteq> None \<or> a1 ''update'' \<noteq> None
         then (h1, Inl TypeError)
         else if a2 ''check'' \<noteq> None \<or> a2 ''_get'' \<noteq> None
         then (h1 @ [a2], Inl TypeError)
         else (h1 @ [a2], ebind (check [a2] 0) (\<lambda>_. Inr (length h1))))"
proof (cases "copies kwargs")
  case True
  let ?a1 = "update_loop (overriding kwargs) (kw_fields kwargs) (h ! init_data self)"
  have u: "update h (init_data self) (copies kwargs) (overriding kwargs) (kw_fields kwargs)
             = (h @ [?a1], length h)"
    using assms True by (simp add: update_copy)
  have a2: "merged (h ! init_data self) kwargs
      = update_loop False [(''inc'', PInt 1), (''mean'', PBool True),
                           (''gini'', PNone), (''theil'', PNone)] ((h @ [?a1]) ! length h)"
    by (simp add: merged_def)
  have e: "assemble h self kwargs = (if (h ! init_data self) ''update'' \<noteq> None \<or> ''self'' \<in> set (map fst kwargs)
      then (h, Inl TypeError)
      else if ((h @ [?a1]) ! length h) ''add_defaults'' \<noteq> None \<or> ((h @ [?a1]) ! length h) ''update'' \<noteq> None
      then (h @ [?a1], Inl TypeError)
      else if merged (h ! init_data self) kwargs ''check'' \<noteq> None \<or> merged (h ! init_data self) kwargs ''_get'' \<noteq> None
      then ((h @ [?a1]) @ [merged (h ! init_data self) kwargs], Inl TypeError)
      else ((h @ [?a1]) @ [merged (h ! init_data self) kwargs],
            ebind (check [merged (h ! init_data self) kwargs] 0) (\<lambda>_. Inr (length (h @ [?a1])))))"
    by (rule assemble_from_update [OF u _ a2]) simp
  show ?thesis
    unfolding e Let_def using True by simp
next
  case False
  let ?a1 = "update_loop (overriding kwargs) (kw_fields kwargs) (h ! init_data self)"
  have u: "update h (init_data self) (copies kwargs) (overriding kwargs) (kw_fields kwargs)
             = (h[init_data self := ?a1], init_data self)"
    using assms False by (simp add: update_in_place)
  have a2: "merged (h ! init_data self) kwargs
      = update_loop False [(''inc'', PInt 1), (''mean'', PBool True),
                           (''gini'', PNone), (''theil'', PNone)]
          ((h[init_data self := ?a1]) ! init_data self)"
    using assms by (simp add: merged_def)
  have e: "assemble h self kwargs = (if (h ! init_data self) ''update'' \<noteq> None \<or> ''self'' \<in> set (map fst kwargs)
      then (h, Inl TypeError)
      else if ((h[init_data self := ?a1]) ! init_data self) ''add_defaults'' \<noteq> None
              \<or> ((h[init_data self := ?a1]) ! init_data self) ''update'' \<noteq> None
      then (h[init_data self := ?a1], Inl TypeError)
      else if merged (h ! init_data self) kwargs ''check'' \<noteq> None \<or> merged (h ! init_data self) kwargs ''_get'' \<noteq> None
      then ((h[init_data self := ?a1]) @ [merged (h ! init_data self) kwargs], Inl TypeError)
      else ((h[init_data self := ?a1]) @ [merged (h ! init_data self) kwargs],
            ebind (check [merged (h ! init_data self) kwargs] 0)
              (\<lambda>_. Inr (length (h[init_data self := ?a1])))))"
    by (rule assemble_from_update [OF u _ a2]) (use assms in simp)
  show ?thesis
    unfolding e Let_def using False assms by simp
qed

lemma params_eq:
  assumes "init_data self < length h"
  shows "params sp h self kwargs =
     (let d = init_data self;
          a1 = update_loop (overriding kwargs) (kw_fields kwargs) (h ! d);
          a2 = merged (h ! d) kwargs;
          h1 = (if copies kwargs then h @ [a1] else h[d := a1])
      in if (h ! d) ''update'' \<noteq> None \<or> ''self'' \<in> set (map fst kwargs)
         then (h, Inl TypeError)
         else if a1 ''add_defaults'' \<noteq> None \<or> a1 ''update'' \<noteq> None
         then (h1, Inl TypeError)
         else if a2 ''check'' \<noteq> None \<or> a2 ''_get'' \<noteq> None
         then (h1 @ [a2], Inl TypeError)
         else (h1 @ [a2], ebind (check [a2] 0) (\<lambda>_. shape_scale sp [a2] 0)))"
proof -
  have l: "shape_scale sp (h1 @ [a2]) (length h1) = shape_scale sp [a2] 0" for h1 a2
    by (subst shape_scale_local) simp
  show ?thesis
    unfolding params_def assemble_eq [OF assms] Let_def
    by (simp add: ebind_assoc l)
qed

lemma params_store:
  "init_data self < length h \<Longrightarrow> copies kwargs \<Longrightarrow>
   \<exists>ext. fst (params sp h self kwargs) = h @ ext"
  by (simp add: params_eq Let_def)

lemma params_result_local:
  "init_data self < length h \<Longrightarrow> init_data self < length h' \<Longrightarrow>
   h' ! init_data self = h ! init_data self \<Longrightarrow>
   snd (params sp h' self kwargs) = snd (params sp h self kwargs)"
  by (simp add: params_eq Let_def)

section \<open>Queries and the baseline configuration\<close>

lemma call_store:
  assumes "init_data self < length h" and "copies (overrides q)"
  shows "\<exists>ext. fst (call sp h self q) = h @ ext"
proof -
  obtain ext where e: "fst (params sp h self (overrides q)) = h @ ext"
    using params_store [OF assms] by blast
  have "fst (call sp h self q) = h \<or> fst (call sp h self q) = fst (params sp h self (overrides q))"
    by (cases q)
      (simp_all add: ppf_def cdf_def lorenz_def mean_def median_def var_def std_def
        case_prod_beta)
  then show ?thesis using e by auto
qed

lemma call_snd_cong:
  "snd (params sp h' self (overrides q)) = snd (params sp h self (overrides q)) \<Longrightarrow>
   snd (call sp h' self q) = snd (call sp h self q)"
  by (cases q)
    (simp_all add: ppf_def cdf_def lorenz_def mean_def median_def var_def std_def
      case_prod_beta)

lemma run_store:
  "init_data self < length h \<Longrightarrow> list_all (\<lambda>q. copies (overrides q)) qs \<Longrightarrow>
   \<exists>ext. run sp h self qs = h @ ext"
proof (induction qs arbitrary: h)
  case Nil
  then show ?case by simp
next
  case (Cons q qs)
  obtain e1 where e1: "fst (call sp h self q) = h @ e1"
    using call_store [OF Cons.prems(1), of q sp] Cons.prems(2) by auto
  have "\<exists>ext. run sp (h @ e1) self qs = (h @ e1) @ ext"
    by (rule Cons.IH) (use Cons.prems in simp_all)
  then show ?case using e1 by auto
qed

text \<open>
  Claim C6, for calls that do not pass a false \<^verbatim>\<open>copy\<close>. Let \<open>self\<close> be a \<^verbatim>\<open>LogNormal\<close>
  instance whose baseline object \<open>init_data self\<close> exists in the store \<open>h\<close>, and let
  \<open>qs\<close> be a sequence of calls of \<^verbatim>\<open>params\<close> and of the query methods, with any overrides
  among which \<^verbatim>\<open>copy\<close> is absent or true. Whether the calls return or raise, after them
  the baseline object has the attributes it had, and so has every other object that
  existed before; the methods never assign \<^verbatim>\<open>self.init_data\<close>, which is why the
  instance is a value here. A further call \<open>q\<close> then gives the result it gives in the
  store \<open>h\<close>: earlier calls have no effect on later ones.
\<close>

theorem queries_leave_baseline:
  assumes "init_data self < length h"
    and "\<forall>k. (h ! init_data self) k \<noteq> None \<longrightarrow> \<not> dunder k"
    and "list_all (\<lambda>q. plain_kwargs (overrides q) \<and> copies (overrides q)) qs"
    and "plain_kwargs (overrides q)"
  shows "run sp h self qs ! init_data self = h ! init_data self \<and>
         (\<forall>r<length h. run sp h self qs ! r = h ! r) \<and>
         snd (call sp (run sp h self qs) self q) = snd (call sp h self q)"
proof -
  have "list_all (\<lambda>q. copies (overrides q)) qs"
    using assms(3) by (simp add: list_all_iff)
  then obtain ext where st: "run sp h self qs = h @ ext"
    using run_store [OF assms(1)] by blast
  have fr: "\<forall>r<length h. run sp h self qs ! r = h ! r"
    by (simp add: st nth_append)
  have base: "run sp h self qs ! init_data self = h ! init_data self"
    using fr assms(1) by simp
  have "snd (params sp (run sp h self qs) self (overrides q)) = snd (params sp h self (overrides q))"
    using assms(1) base by (intro params_result_local) (simp_all add: st)
  then have "snd (call sp (run sp h self qs) self q) = snd (call sp h self q)"
    by (rule call_snd_cong)
  then show ?thesis using base fr by simp
qed

theorem queries_leave_baseline_witness:
  "run sp_alg [[''gini'' \<mapsto> PNum (2 / 5)]] \<lparr>init_data = 0\<rparr>
       [Params [(''gini'', PNum (1 / 2))], Mean [(''theil'', PNum 1), (''copy'', PBool True)]] ! 0
     = [''gini'' \<mapsto> PNum (2 / 5)] \<and>
   snd (call sp_alg
          (run sp_alg [[''gini'' \<mapsto> PNum (2 / 5)]] \<lparr>init_data = 0\<rparr>
             [Params [(''gini'', PNum (1 / 2))],
              Mean [(''theil'', PNum 1), (''copy'', PBool True)]])
          \<lparr>init_data = 0\<rparr> (Median []))
     = snd (call sp_alg [[''gini'' \<mapsto> PNum (2 / 5)]] \<lparr>init_data = 0\<rparr> (Median []))"
  using queries_leave_baseline
    [of "\<lparr>init_data = 0\<rparr>" "[[''gini'' \<mapsto> PNum (2 / 5)]]"
        "[Params [(''gini'', PNum (1 / 2))], Mean [(''theil'', PNum 1), (''copy'', PBool True)]]"
        "Median []" sp_alg]
  by (simp add: plain_kwargs_def copies_def dunder_def)

text \<open>
  The claim as the specification words it, for any overrides, does not hold:
  \<^verbatim>\<open>params\<close> hands its keywords to \<^verbatim>\<open>update\<close>, so \<^verbatim>\<open>copy=False\<close> makes \<^verbatim>\<open>update\<close> work on the
  baseline object itself. After \<^verbatim>\<open>LogNormal(gini=0.4, mean=False)\<close> the call
  \<^verbatim>\<open>params(copy=False, gini=0.5)\<close> leaves the baseline with \<^verbatim>\<open>gini\<close> 0.5, and a later
  \<^verbatim>\<open>params()\<close> returns the shape of 0.5 where it returned the shape of 0.4 before.
\<close>

theorem queries_leave_baseline_counterexample:
  "([[''gini'' \<mapsto> PNum (2 / 5), ''mean'' \<mapsto> PBool False]] ! 0) ''gini'' = Some (PNum (2 / 5)) \<and>
   (run sp_alg [[''gini'' \<mapsto> PNum (2 / 5), ''mean'' \<mapsto> PBool False]] \<lparr>init_data = 0\<rparr>
       [Params [(''copy'', PBool False), (''gini'', PNum (1 / 2))]] ! 0) ''gini''
     = Some (PNum (1 / 2)) \<and>
   snd (call sp_alg [[''gini'' \<mapsto> PNum (2 / 5), ''mean'' \<mapsto> PBool False]] \<lparr>init_data = 0\<rparr>
          (Params []))
     = Inr (Pair (Finite (gini_to_std sp_alg (2 / 5))) (Finite 1)) \<and>
   snd (call sp_alg
          (run sp_alg [[''gini'' \<mapsto> PNum (2 / 5), ''mean'' \<mapsto> PBool False]] \<lparr>init_data = 0\<rparr>
             [Params [(''copy'', PBool False), (''gini'', PNum (1 / 2))]])
          \<lparr>init_data = 0\<rparr> (Params []))
     = Inr (Pair (Finite (gini_to_std sp_alg (1 / 2))) (Finite 1)) \<and>
   gini_to_std sp_alg (1 / 2) \<noteq> gini_to_std sp_alg (2 / 5)"
proof -
  let ?h = "[[''gini'' \<mapsto> PNum (2 / 5), ''mean'' \<mapsto> PBool False]]"
  let ?self = "\<lparr>init_data = 0\<rparr>"
  let ?kw = "[(''copy'', PBool False), (''gini'', PNum (1 / 2))]"
  have f: "kw_fields ?kw = [(''gini'', PNum (1 / 2))]" "\<not> copies ?kw" "overriding ?kw"
    "kw_fields [] = []" "copies []" "overriding []"
    by (simp_all add: kw_fields_def copies_def overriding_def)
  have r: "run sp_alg ?h ?self [Params ?kw] ! 0
             = [''gini'' \<mapsto> PNum (1 / 2), ''mean'' \<mapsto> PBool False]"
    by (simp add: params_eq Let_def f merged_def fun_upd_twist)
  have v: "init_data ?self < length (run sp_alg ?h ?self [Params ?kw])"
    by (simp add: params_eq Let_def f merged_def)
  have p: "snd (params sp_alg h' ?self []) = Inr (Finite (gini_to_std sp_alg g), Finite 1)"
    if "0 < length h'" and "h' ! 0 = [''gini'' \<mapsto> PNum g, ''mean'' \<mapsto> PBool False]"
      and "- 1 < g" and "g < 1" for h' g
    using that
    by (simp add: params_eq Let_def f merged_def check_eq getattr_def shape_scale_def attr_def
        gini_to_std_at_def class_methods_def)
  have 1: "snd (call sp_alg ?h ?self (Params []))
      = Inr (Pair (Finite (gini_to_std sp_alg (2 / 5))) (Finite 1))"
    using p [of ?h "2 / 5"] by simp
  have 2: "snd (call sp_alg (run sp_alg ?h ?self [Params ?kw]) ?self (Params []))
      = Inr (Pair (Finite (gini_to_std sp_alg (1 / 2))) (Finite 1))"
    using p [OF _ r] v by simp
  have 3: "gini_to_std sp_alg (1 / 2) \<noteq> gini_to_std sp_alg (2 / 5)"
    by (simp add: gini_to_std_def sp_alg_def)
  show ?thesis using r 1 2 3 by simp
qed

section \<open>Validation errors\<close>

lemma LogNormal_init_eq:
  "LogNormal_init h kwargs =
     (h @ [update_loop (overriding kwargs) (filter (\<lambda>(k, v). k \<noteq> ''override'') kwargs) Map.empty],
      \<lparr>init_data = length h\<rparr>)"
proof -
  have "update (h @ [Map.empty]) (length h) False override kw
      = ((h @ [Map.empty])[length h := update_loop override kw ((h @ [Map.empty]) ! length h)], length h)"
    for override kw
    by (rule update_in_place) simp
  then show ?thesis
    by (simp add: LogNormal_init_def AttrObject_init_def)
qed

lemma call_snd_error:
  "overrides q = [] \<Longrightarrow> snd (params sp h self []) = Inl e \<Longrightarrow> snd (call sp h self q) = Inl e"
  by (cases q)
    (simp_all add: ppf_def cdf_def lorenz_def mean_def median_def var_def std_def
      case_prod_beta)

lemma both_raises:
  "snd (params sp (h @ [update_loop True [(''gini'', PNum (3 / 10)), (''theil'', PNum (2 / 10))] Map.empty])
          \<lparr>init_data = length h\<rparr> [])
     = Inl (ValueError ''Cannot use both theil and gini'')"
  by (simp add: params_eq Let_def check_eq getattr_def merged_def
      copies_def overriding_def kw_fields_def)

lemma neither_raises:
  "snd (params sp (h @ [update_loop True [] Map.empty]) \<lparr>init_data = length h\<rparr> [])
     = Inl (ValueError ''Must use either theil or gini'')"
  by (simp add: params_eq Let_def check_eq getattr_def merged_def
      copies_def overriding_def kw_fields_def)

text \<open>
  Claim C4, as the source has it. \<^verbatim>\<open>check\<close> raises \<^verbatim>\<open>ValueError\<close> (the module has no
  exception class of its own) and its messages are these: \<^verbatim>\<open>Must use either theil or gini\<close>
  when neither measure is set, \<^verbatim>\<open>Cannot use both theil and gini\<close> when both are, and
  otherwise \<^verbatim>\<open>Must declare value for inc\<close> or \<^verbatim>\<open>Must declare value for mean\<close> for the
  first of the two that is unset. It returns exactly when one of gini and theil is set
  and both \<^verbatim>\<open>inc\<close> and \<^verbatim>\<open>mean\<close> are. Consequently \<^verbatim>\<open>LogNormal(gini=0.3, theil=0.2)\<close> and
  \<^verbatim>\<open>LogNormal()\<close> raise \<^verbatim>\<open>ValueError\<close>, with the second and the first message, at a first
  call of \<^verbatim>\<open>params\<close> or of a query method without overrides.
\<close>

theorem check_errors:
  "check h d =
     (if getattr h d ''theil'' = PNone \<and> getattr h d ''gini'' = PNone
      then Inl (ValueError ''Must use either theil or gini'')
      else if getattr h d ''theil'' \<noteq> PNone \<and> getattr h d ''gini'' \<noteq> PNone
      then Inl (ValueError ''Cannot use both theil and gini'')
      else if getattr h d ''inc'' = PNone
      then Inl (ValueError ''Must declare value for inc'')
      else if getattr h d ''mean'' = PNone
      then Inl (ValueError ''Must declare value for mean'')
      else Inr d) \<and>
   ((\<exists>r. check h d = Inr r) \<longleftrightarrow>
      (getattr h d ''gini'' = PNone) \<noteq> (getattr h d ''theil'' = PNone) \<and>
      getattr h d ''inc'' \<noteq> PNone \<and> getattr h d ''mean'' \<noteq> PNone) \<and>
   (LogNormal_init h0 [(''gini'', PNum (3 / 10)), (''theil'', PNum (2 / 10))] = (h1, both) \<and>
    overrides q = [] \<longrightarrow>
      snd (call sp h1 both q) = Inl (ValueError ''Cannot use both theil and gini'')) \<and>
   (LogNormal_init h0 [] = (h1', neither) \<and> overrides q = [] \<longrightarrow>
      snd (call sp h1' neither q) = Inl (ValueError ''Must use either theil or gini''))"
proof -
  have c: "check h d =
     (if getattr h d ''theil'' = PNone \<and> getattr h d ''gini'' = PNone
      then Inl (ValueError ''Must use either theil or gini'')
      else if getattr h d ''theil'' \<noteq> PNone \<and> getattr h d ''gini'' \<noteq> PNone
      then Inl (ValueError ''Cannot use both theil and gini'')
      else if getattr h d ''inc'' = PNone
      then Inl (ValueError ''Must declare value for inc'')
      else if getattr h d ''mean'' = PNone
      then Inl (ValueError ''Must declare value for mean'')
      else Inr d)"
    by (rule check_eq)
  have iff: "(\<exists>r. check h d = Inr r) \<longleftrightarrow>
      (getattr h d ''gini'' = PNone) \<noteq> (getattr h d ''theil'' = PNone) \<and>
      getattr h d ''inc'' \<noteq> PNone \<and> getattr h d ''mean'' \<noteq> PNone"
    unfolding c by auto
  have both: "LogNormal_init h0 [(''gini'', PNum (3 / 10)), (''theil'', PNum (2 / 10))] = (h1, both) \<and>
    overrides q = [] \<longrightarrow>
      snd (call sp h1 both q) = Inl (ValueError ''Cannot use both theil and gini'')"
    using both_raises [of sp h0]
    by (auto simp: LogNormal_init_eq overriding_def intro!: call_snd_error)
  have neither: "LogNormal_init h0 [] = (h1', neither) \<and> overrides q = [] \<longrightarrow>
      snd (call sp h1' neither q) = Inl (ValueError ''Must use either theil or gini'')"
    using neither_raises [of sp h0]
    by (auto simp: LogNormal_init_eq overriding_def intro!: call_snd_error)
  show ?thesis
    using c iff both neither by blast
qed

theorem check_errors_witness:
  "snd (call sp_alg
          (fst (LogNormal_init [] [(''gini'', PNum (3 / 10)), (''theil'', PNum (2 / 10))]))
          (snd (LogNormal_init [] [(''gini'', PNum (3 / 10)), (''theil'', PNum (2 / 10))]))
          (Mean []))
     = Inl (ValueError ''Cannot use both theil and gini'') \<and>
   snd (call sp_alg (fst (LogNormal_init [] [])) (snd (LogNormal_init [] [])) (Cdf 1 []))
     = Inl (ValueError ''Must use either theil or gini'')"
proof -
  let ?i = "LogNormal_init [] [(''gini'', PNum (3 / 10)), (''theil'', PNum (2 / 10))]"
  let ?j = "LogNormal_init [] []"
  have "snd (call sp_alg (fst ?i) (snd ?i) (Mean [])) = Inl (ValueError ''Cannot use both theil and gini'')"
    using check_errors [where ?h0.0 = "[]" and ?h1.0 = "fst ?i" and both = "snd ?i"
        and q = "Mean []" and sp = sp_alg]
    by simp
  moreover have "snd (call sp_alg (fst ?j) (snd ?j) (Cdf 1 [])) = Inl (ValueError ''Must use either theil or gini'')"
    using check_errors [where ?h0.0 = "[]" and h1' = "fst ?j" and neither = "snd ?j"
        and q = "Cdf 1 []" and sp = sp_alg]
    by simp
  ultimately show ?thesis by simp
qed

text \<open>
  The claim as the specification words it does not hold: the messages of \<^verbatim>\<open>check\<close> are
  not the quoted ones (and the exception is a \<^verbatim>\<open>ValueError\<close>).
\<close>

theorem check_errors_counterexample:
  "check [Map.empty] 0 = Inl (ValueError ''Must use either theil or gini'') \<and>
   check [[''gini'' \<mapsto> PNum (3 / 10), ''theil'' \<mapsto> PNum (2 / 10)]] 0
     = Inl (ValueError ''Cannot use both theil and gini'') \<and>
   check [[''gini'' \<mapsto> PNum (3 / 10)]] 0 = Inl (ValueError ''Must declare value for inc'') \<and>
   check [Map.empty] 0 \<noteq> Inl (ValueError ''must supply exactly one of gini or theil'') \<and>
   check [[''gini'' \<mapsto> PNum (3 / 10), ''theil'' \<mapsto> PNum (2 / 10)]] 0
     \<noteq> Inl (ValueError ''must supply exactly one of gini or theil'') \<and>
   check [[''gini'' \<mapsto> PNum (3 / 10)]] 0 \<noteq> Inl (ValueError ''must declare value for inc'')"
  by (simp add: check_eq getattr_def)

section \<open>The derived shape and scale\<close>

lemma defaults_defined:
  "k \<in> {''inc'', ''mean'', ''gini'', ''theil''} \<Longrightarrow>
   update_loop False [(''inc'', PInt 1), (''mean'', PBool True),
                      (''gini'', PNone), (''theil'', PNone)] a k \<noteq> None"
  by (auto simp: class_methods_def split: option.splits)

lemma defaults_inc_mean:
  "k \<in> {''inc'', ''mean''} \<Longrightarrow>
   update_loop False [(''inc'', PInt 1), (''mean'', PBool True),
                      (''gini'', PNone), (''theil'', PNone)] a k \<noteq> Some PNone"
  by (auto simp: class_methods_def split: option.splits)

lemma merged_defined:
  "k \<in> {''inc'', ''mean'', ''gini'', ''theil''} \<Longrightarrow> merged a kwargs k \<noteq> None"
  unfolding merged_def by (rule defaults_defined)

lemma merged_inc_mean:
  "k \<in> {''inc'', ''mean''} \<Longrightarrow> merged a kwargs k \<noteq> Some PNone"
  unfolding merged_def by (rule defaults_inc_mean)

lemma attr_defined: "(h ! x) k \<noteq> None \<Longrightarrow> attr h x k = Inr (getattr h x k)"
  by (auto simp: attr_def getattr_def)

lemma np_float_value_of: "np_float v = Inr x \<Longrightarrow> value_of v = Finite x"
  by (cases v) (auto split: if_splits)

text \<open>
  What is known of the object that the first statement of \<open>params\<close> returns: it is the
  last object of the store, its four data attributes exist, and \<^verbatim>\<open>check\<close> accepts it.
\<close>

lemma assemble_Inr:
  assumes "init_data self < length h" and "assemble h self kwargs = (h2, Inr data)"
  shows "data < length h2" and "h2 ! data = merged (h ! init_data self) kwargs"
    and "check h2 data = Inr data"
    and "params sp h self kwargs = (h2, shape_scale sp h2 data)"
proof -
  let ?a2 = "merged (h ! init_data self) kwargs"
  note e = assms(2) [unfolded assemble_eq [OF assms(1)] Let_def]
  have ok: "check [?a2] 0 = Inr 0"
    using e by (auto simp: check_eq split: if_splits)
  show l: "data < length h2" and o: "h2 ! data = ?a2"
    using e by (auto simp: ok nth_append split: if_splits)
  show "check h2 data = Inr data"
    by (subst check_local) (simp add: o ok)
  have "''self'' \<notin> set (map fst kwargs)"
    using e by (auto split: if_splits)
  then show "params sp h self kwargs = (h2, shape_scale sp h2 data)"
    by (simp add: params_def assms(2))
qed

lemma assemble_attrs:
  assumes "init_data self < length h" and "assemble h self kwargs = (h2, Inr data)"
  shows "attr h2 data ''theil'' = Inr (getattr h2 data ''theil'')"
    and "attr h2 data ''gini'' = Inr (getattr h2 data ''gini'')"
    and "attr h2 data ''mean'' = Inr (getattr h2 data ''mean'')"
    and "attr h2 data ''inc'' = Inr (getattr h2 data ''inc'')"
  using merged_defined [of _ "h ! init_data self" kwargs]
  by (simp_all add: attr_defined assemble_Inr(2) [OF assms])

text \<open>
  Claim C1, for values that numpy and Python convert to floats. Let \<open>data\<close> in the
  store \<open>h2\<close> be the configuration that \<^verbatim>\<open>params\<close> assembles from the baseline and the
  overrides and that \<^verbatim>\<open>check\<close> accepts (the first statement of \<^verbatim>\<open>params\<close> returns it).
  Let the supplied measure be a number: the gini \<open>g\<close> a float, a boolean or an int
  within 64 bits when gini is supplied (theil is \<^verbatim>\<open>None\<close>), the theil \<open>t\<close> a float, a
  boolean or an int whose double Python converts to a float when theil is supplied;
  and let \<^verbatim>\<open>inc\<close> be a number \<open>inc\<close>, converted by numpy when \<^verbatim>\<open>mean\<close> is true. Then
  \<^verbatim>\<open>params\<close> returns a pair of shape and scale. The shape is \<open>gini_to_std g\<close> or
  \<open>theil_to_std t\<close>, and the scale is \<open>inc\<close> when \<^verbatim>\<open>mean\<close> is false and
  \<open>exp (ln inc - shape\<^sup>2 / 2)\<close> otherwise; at \<open>inc = 0\<close>, where the logarithm of the source
  is minus infinity, that is \<open>0\<close>. Floats being real numbers here, these equations are
  stated where the source computes finite numbers: for \<open>g\<close> inside \<open>(- 1, 1)\<close>, for
  \<open>t \<ge> 0\<close>, and for \<open>inc \<ge> 0\<close> under a finite shape. Special names are excluded from the
  baseline and the overrides.
\<close>

theorem params_shape_scale:
  assumes "init_data self < length h"
    and "\<forall>k. (h ! init_data self) k \<noteq> None \<longrightarrow> \<not> dunder k"
    and "plain_kwargs kwargs"
    and "assemble h self kwargs = (h2, Inr data)"
    and "getattr h2 data ''theil'' = PNone \<longrightarrow> np_float (getattr h2 data ''gini'') = Inr g"
    and "getattr h2 data ''theil'' \<noteq> PNone \<longrightarrow>
           getattr h2 data ''theil'' = PNum t \<or>
           (getattr h2 data ''theil'' = PInt n \<and> t = real_of_int n \<and>
            \<bar>2 * n\<bar> < 2 ^ 1024 - 2 ^ 970) \<or>
           (getattr h2 data ''theil'' = PBool b \<and> t = (if b then 1 else 0))"
    and "truthy (getattr h2 data ''mean'') \<longrightarrow> np_float (getattr h2 data ''inc'') = Inr inc"
    and "\<not> truthy (getattr h2 data ''mean'') \<longrightarrow> value_of (getattr h2 data ''inc'') = Finite inc"
  shows
    "\<exists>shape scale.
       params sp h self kwargs = (h2, Inr (shape, scale)) \<and>
       (getattr h2 data ''theil'' = PNone \<and> - 1 < g \<and> g < 1 \<longrightarrow>
          shape = Finite (gini_to_std sp g)) \<and>
       (getattr h2 data ''theil'' \<noteq> PNone \<and> 0 \<le> t \<longrightarrow> shape = Finite (theil_to_std t)) \<and>
       (\<not> truthy (getattr h2 data ''mean'') \<longrightarrow> scale = Finite inc) \<and>
       (truthy (getattr h2 data ''mean'') \<longrightarrow>
          (\<forall>s. shape = Finite s \<and> 0 < inc \<longrightarrow> scale = Finite (exp (ln inc - s\<^sup>2 / 2))) \<and>
          (\<forall>s. shape = Finite s \<and> inc = 0 \<longrightarrow> scale = Finite 0))"
proof -
  note at = assemble_attrs [OF assms(1,4)]
  have p: "params sp h self kwargs = (h2, shape_scale sp h2 data)"
    by (rule assemble_Inr(4) [OF assms(1,4)])
  define shape where
    "shape = (if getattr h2 data ''theil'' = PNone
              then if - 1 < g \<and> g < 1 then Finite (gini_to_std sp g) else Special
              else if 0 \<le> t then Finite (theil_to_std t) else Special)"
  define scale where
    "scale = (if truthy (getattr h2 data ''mean'') then exp_log_minus inc shape else Finite inc)"
  have sh: "(if getattr h2 data ''theil'' = PNone
             then gini_to_std_at sp (getattr h2 data ''gini'')
             else theil_to_std_at (getattr h2 data ''theil'')) = Inr shape"
  proof (cases "getattr h2 data ''theil'' = PNone")
    case True
    then show ?thesis using assms(5) by (simp add: gini_to_std_at_def shape_def)
  next
    case False
    then show ?thesis
      using assms(6) by (cases b) (auto simp: py_float_def shape_def theil_to_std_def)
  qed
  have sc: "(if truthy (getattr h2 data ''mean'')
             then ebind (np_float (getattr h2 data ''inc''))
                    (\<lambda>inc. Inr (exp_log_minus inc shape))
             else Inr (value_of (getattr h2 data ''inc''))) = Inr scale"
    using assms(7,8) by (auto simp: scale_def)
  have r: "shape_scale sp h2 data = Inr (shape, scale)"
    using sh sc
    by (cases "getattr h2 data ''theil'' = PNone"; cases "truthy (getattr h2 data ''mean'')";
        simp add: shape_scale_def at)
  have 1: "getattr h2 data ''theil'' = PNone \<and> - 1 < g \<and> g < 1 \<longrightarrow>
          shape = Finite (gini_to_std sp g)"
    by (simp add: shape_def)
  have 2: "getattr h2 data ''theil'' \<noteq> PNone \<and> 0 \<le> t \<longrightarrow> shape = Finite (theil_to_std t)"
    by (simp add: shape_def)
  have 3: "\<not> truthy (getattr h2 data ''mean'') \<longrightarrow> scale = Finite inc"
    by (simp add: scale_def)
  have 4: "truthy (getattr h2 data ''mean'') \<longrightarrow>
          (\<forall>s. shape = Finite s \<and> 0 < inc \<longrightarrow> scale = Finite (exp (ln inc - s\<^sup>2 / 2))) \<and>
          (\<forall>s. shape = Finite s \<and> inc = 0 \<longrightarrow> scale = Finite 0)"
    by (auto simp: scale_def)
  show ?thesis
    using p r 1 2 3 4 by (intro exI [of _ shape] exI [of _ scale]) simp
qed

lemmas eval_store =
  params_eq assemble_eq Let_def merged_def copies_def overriding_def kw_fields_def check_eq
  getattr_def attr_def shape_scale_def gini_to_std_at_def class_methods_def nth_append

lemma example_assemble:
  "assemble [[''inc'' \<mapsto> PInt 100, ''mean'' \<mapsto> PBool False, ''gini'' \<mapsto> PNum (2 / 5)]]
      \<lparr>init_data = 0\<rparr> [] =
   ([[''inc'' \<mapsto> PInt 100, ''mean'' \<mapsto> PBool False, ''gini'' \<mapsto> PNum (2 / 5)],
     [''inc'' \<mapsto> PInt 100, ''mean'' \<mapsto> PBool False, ''gini'' \<mapsto> PNum (2 / 5)],
     [''inc'' \<mapsto> PInt 100, ''mean'' \<mapsto> PBool False, ''gini'' \<mapsto> PNum (2 / 5),
      ''theil'' \<mapsto> PNone]], Inr 2)"
  by (simp add: eval_store)

lemma example_assemble_theil:
  "assemble [[''inc'' \<mapsto> PInt 100, ''mean'' \<mapsto> PBool False, ''gini'' \<mapsto> PNum (2 / 5)]]
      \<lparr>init_data = 0\<rparr> [(''mean'', PBool True), (''gini'', PNone), (''theil'', PInt 2)] =
   ([[''inc'' \<mapsto> PInt 100, ''mean'' \<mapsto> PBool False, ''gini'' \<mapsto> PNum (2 / 5)],
     [''inc'' \<mapsto> PInt 100, ''mean'' \<mapsto> PBool True, ''theil'' \<mapsto> PInt 2, ''gini'' \<mapsto> PNone],
     [''inc'' \<mapsto> PInt 100, ''mean'' \<mapsto> PBool True, ''theil'' \<mapsto> PInt 2, ''gini'' \<mapsto> PNone]],
    Inr 2)"
  by (simp add: eval_store) (simp add: fun_eq_iff)

theorem params_shape_scale_witness:
  "snd (params sp_alg [[''inc'' \<mapsto> PInt 100, ''mean'' \<mapsto> PBool False, ''gini'' \<mapsto> PNum (2 / 5)]]
          \<lparr>init_data = 0\<rparr> [])
     = Inr (Finite (gini_to_std sp_alg (2 / 5)), Finite 100) \<and>
   snd (params sp_alg [[''inc'' \<mapsto> PInt 100, ''mean'' \<mapsto> PBool False, ''gini'' \<mapsto> PNum (2 / 5)]]
          \<lparr>init_data = 0\<rparr> [(''mean'', PBool True), (''gini'', PNone), (''theil'', PInt 2)])
     = Inr (Finite (theil_to_std 2), Finite (exp (ln 100 - (theil_to_std 2)\<^sup>2 / 2)))"
proof -
  let ?h = "[[''inc'' \<mapsto> PInt 100, ''mean'' \<mapsto> PBool False, ''gini'' \<mapsto> PNum (2 / 5)]]"
  let ?self = "\<lparr>init_data = 0\<rparr>"
  let ?kw = "[(''mean'', PBool True), (''gini'', PNone), (''theil'', PInt 2)]"
  have v: "init_data ?self < length ?h" by simp
  have b: "\<forall>k. (?h ! init_data ?self) k \<noteq> None \<longrightarrow> \<not> dunder k"
    by (simp add: dunder_def)
  have k: "plain_kwargs []" "plain_kwargs ?kw"
    by (simp_all add: plain_kwargs_def dunder_def)
  have 1: "snd (params sp_alg ?h ?self []) = Inr (Finite (gini_to_std sp_alg (2 / 5)), Finite 100)"
    using params_shape_scale [OF v b k(1) example_assemble, of "2 / 5" 0 0 False 100 sp_alg]
    by (auto simp: getattr_def)
  have 2: "snd (params sp_alg ?h ?self ?kw)
      = Inr (Finite (theil_to_std 2), Finite (exp (ln 100 - (theil_to_std 2)\<^sup>2 / 2)))"
    using params_shape_scale [OF v b k(2) example_assemble_theil, of 0 2 2 False 100 sp_alg]
    by (auto simp: getattr_def)
  show ?thesis using 1 2 by simp
qed

text \<open>
  The claim as the specification words it, for every configuration that \<^verbatim>\<open>check\<close>
  accepts, does not hold: \<^verbatim>\<open>check\<close> accepts any value that is not \<^verbatim>\<open>None\<close>, and
  \<^verbatim>\<open>theil_to_std\<close> converts \<open>2 * t\<close> to a float. \<^verbatim>\<open>LogNormal(theil=10 ** 309)\<close> passes
  \<^verbatim>\<open>check\<close>, and its \<^verbatim>\<open>params()\<close> raises \<^verbatim>\<open>OverflowError\<close> where the claim has it return
  a pair.
\<close>

theorem params_shape_scale_counterexample:
  "fst (assemble [[''theil'' \<mapsto> PInt (10 ^ 309)]] \<lparr>init_data = 0\<rparr> []) ! 2
     = [''theil'' \<mapsto> PInt (10 ^ 309), ''inc'' \<mapsto> PInt 1, ''mean'' \<mapsto> PBool True, ''gini'' \<mapsto> PNone] \<and>
   snd (assemble [[''theil'' \<mapsto> PInt (10 ^ 309)]] \<lparr>init_data = 0\<rparr> []) = Inr 2 \<and>
   check (fst (assemble [[''theil'' \<mapsto> PInt (10 ^ 309)]] \<lparr>init_data = 0\<rparr> [])) 2 = Inr 2 \<and>
   snd (params sp_alg [[''theil'' \<mapsto> PInt (10 ^ 309)]] \<lparr>init_data = 0\<rparr> []) = Inl OverflowError"
proof -
  have b: "\<not> \<bar>2 * (10::int) ^ 309\<bar> < 2 ^ 1024 - 2 ^ 970"
    by simp
  have a: "assemble [[''theil'' \<mapsto> PInt (10 ^ 309)]] \<lparr>init_data = 0\<rparr> [] =
      ([[''theil'' \<mapsto> PInt (10 ^ 309)], [''theil'' \<mapsto> PInt (10 ^ 309)],
        [''theil'' \<mapsto> PInt (10 ^ 309), ''inc'' \<mapsto> PInt 1, ''mean'' \<mapsto> PBool True,
         ''gini'' \<mapsto> PNone]], Inr 2)"
    by (simp add: eval_store del: power_numeral)
  have c: "check (fst (assemble [[''theil'' \<mapsto> PInt (10 ^ 309)]] \<lparr>init_data = 0\<rparr> [])) 2 = Inr 2"
    unfolding a by (simp add: check_eq getattr_def del: power_numeral)
  have p: "snd (params sp_alg [[''theil'' \<mapsto> PInt (10 ^ 309)]] \<lparr>init_data = 0\<rparr> []) = Inl OverflowError"
    using b by (simp add: eval_store py_float_def del: power_numeral)
  show ?thesis
    unfolding a using c p by (simp add: a del: power_numeral)
qed

section \<open>No domain validation in the model\<close>






section \<open>The query methods\<close>

lemma example_params:
  "params sp [[''inc'' \<mapsto> PInt 3, ''mean'' \<mapsto> PBool False, ''gini'' \<mapsto> PNum (1 / 2)]]
      \<lparr>init_data = 0\<rparr> [] =
   ([[''inc'' \<mapsto> PInt 3, ''mean'' \<mapsto> PBool False, ''gini'' \<mapsto> PNum (1 / 2)],
     [''inc'' \<mapsto> PInt 3, ''mean'' \<mapsto> PBool False, ''gini'' \<mapsto> PNum (1 / 2)],
     [''inc'' \<mapsto> PInt 3, ''mean'' \<mapsto> PBool False, ''gini'' \<mapsto> PNum (1 / 2),
      ''theil'' \<mapsto> PNone]],
    Inr (Finite (gini_to_std sp (1 / 2)), Finite 3))"
  by (simp add: eval_store)

text \<open>
  Claim C7. \<^verbatim>\<open>ppf\<close> returns exactly what \<^verbatim>\<open>cdf\<close> returns, for every instance, every
  set of overrides and every \<open>x\<close>, also when they raise. When \<^verbatim>\<open>params\<close> accepts the
  configuration and derives a finite shape and scale, what both return is the
  log-normal cumulative distribution function \<^verbatim>\<open>lognorm.cdf(x, shape, scale=scale)\<close> at
  that shape and that scale (\<^verbatim>\<open>x\<close> is not the name of an override, and special names
  are excluded from the baseline and the overrides).
\<close>

theorem ppf_is_cdf:
  "ppf sp h self x kwargs = cdf sp h self x kwargs \<and>
   (init_data self < length h \<and> (\<forall>k. (h ! init_data self) k \<noteq> None \<longrightarrow> \<not> dunder k) \<and>
    plain_kwargs kwargs \<and> ''x'' \<notin> set (map fst kwargs) \<and>
    params sp h self kwargs = (h', Inr (Finite shape, Finite scale)) \<longrightarrow>
      cdf sp h self x kwargs = (h', Inr (lognorm_cdf sp x shape scale)) \<and>
      ppf sp h self x kwargs = (h', Inr (lognorm_cdf sp x shape scale)))"
  by (simp add: ppf_def cdf_def)

theorem ppf_is_cdf_witness:
  "snd (ppf sp_alg [[''inc'' \<mapsto> PInt 3, ''mean'' \<mapsto> PBool False, ''gini'' \<mapsto> PNum (1 / 2)]]
          \<lparr>init_data = 0\<rparr> 6 [])
     = Inr (lognorm_cdf sp_alg 6 (gini_to_std sp_alg (1 / 2)) 3) \<and>
   snd (cdf sp_alg [[''inc'' \<mapsto> PInt 3, ''mean'' \<mapsto> PBool False, ''gini'' \<mapsto> PNum (1 / 2)]]
          \<lparr>init_data = 0\<rparr> 6 [])
     = Inr (lognorm_cdf sp_alg 6 (gini_to_std sp_alg (1 / 2)) 3) \<and>
   lognorm_cdf sp_alg 6 (gini_to_std sp_alg (1 / 2)) 3 = Finite (2 / 5)"
proof -
  let ?h = "[[''inc'' \<mapsto> PInt 3, ''mean'' \<mapsto> PBool False, ''gini'' \<mapsto> PNum (1 / 2)]]"
  have b: "\<forall>k. (?h ! 0) k \<noteq> None \<longrightarrow> \<not> dunder k"
    by (simp add: dunder_def)
  have v: "lognorm_cdf sp_alg 6 (gini_to_std sp_alg (1 / 2)) 3 = Finite (2 / 5)"
    by (simp add: sp_alg_def gini_to_std_def)
  show ?thesis
    using ppf_is_cdf [of sp_alg ?h "\<lparr>init_data = 0\<rparr>" 6 "[]" _ "gini_to_std sp_alg (1 / 2)" 3]
      example_params [of sp_alg] b v
    by (simp add: plain_kwargs_def)
qed

section \<open>The Lorenz curve\<close>

text \<open>
  Claim C8. Let \<^verbatim>\<open>params\<close> accept the configuration and derive a finite shape \<open>\<sigma>\<close>, as
  it does whenever the measure lies in its open interval (\<^verbatim>\<open>x\<close> is not the name of an
  override, and special names are excluded from the baseline and the overrides). For
  \<open>x\<close> strictly between 0 and 1, where \<^verbatim>\<open>norm.ppf(x)\<close> is a finite number \<open>z\<close>, \<^verbatim>\<open>lorenz(x)\<close>
  returns \<^verbatim>\<open>norm.cdf\<close> at \<open>z - \<sigma>\<close>. Given the boundary values of the library
  (\<^verbatim>\<open>norm.ppf(0)\<close> is minus infinity, where \<^verbatim>\<open>norm.cdf\<close> is 0; \<^verbatim>\<open>norm.ppf(1)\<close> is plus
  infinity, where \<^verbatim>\<open>norm.cdf\<close> is 1), \<^verbatim>\<open>lorenz(0)\<close> is 0 and \<^verbatim>\<open>lorenz(1)\<close> is 1.
\<close>

theorem lorenz_formula:
  assumes "init_data self < length h"
    and "\<forall>k. (h ! init_data self) k \<noteq> None \<longrightarrow> \<not> dunder k"
    and "plain_kwargs kwargs" and "''x'' \<notin> set (map fst kwargs)"
    and "params sp h self kwargs = (h', Inr (Finite shape, scale))"
  shows
    "(0 < x \<and> x < 1 \<and> norm_ppf sp x = Fin z \<longrightarrow>
        lorenz sp h self x kwargs = (h', Inr (Finite (norm_cdf sp (Fin (z - shape)))))) \<and>
     (norm_ppf sp 0 = MInf \<and> norm_cdf sp MInf = 0 \<longrightarrow>
        lorenz sp h self 0 kwargs = (h', Inr (Finite 0))) \<and>
     (norm_ppf sp 1 = PInf \<and> norm_cdf sp PInf = 1 \<longrightarrow>
        lorenz sp h self 1 kwargs = (h', Inr (Finite 1)))"
  using assms(4,5) by (simp add: lorenz_def)

theorem lorenz_formula_witness:
  "snd (lorenz sp_alg [[''inc'' \<mapsto> PInt 3, ''mean'' \<mapsto> PBool False, ''gini'' \<mapsto> PNum (1 / 2)]]
          \<lparr>init_data = 0\<rparr> (3 / 4) []) = Inr (Finite (1 / 4)) \<and>
   gini_to_std sp_alg (1 / 2) = 2 \<and> norm_ppf sp_alg (3 / 4) = Fin 1 \<and>
   norm_cdf sp_alg (Fin (1 - 2)) = 1 / 4 \<and>
   snd (lorenz sp_alg [[''inc'' \<mapsto> PInt 3, ''mean'' \<mapsto> PBool False, ''gini'' \<mapsto> PNum (1 / 2)]]
          \<lparr>init_data = 0\<rparr> 0 []) = Inr (Finite 0) \<and>
   snd (lorenz sp_alg [[''inc'' \<mapsto> PInt 3, ''mean'' \<mapsto> PBool False, ''gini'' \<mapsto> PNum (1 / 2)]]
          \<lparr>init_data = 0\<rparr> 1 []) = Inr (Finite 1)"
proof -
  let ?h = "[[''inc'' \<mapsto> PInt 3, ''mean'' \<mapsto> PBool False, ''gini'' \<mapsto> PNum (1 / 2)]]"
  have v: "init_data \<lparr>init_data = 0\<rparr> < length ?h" by simp
  have b: "\<forall>k. (?h ! init_data \<lparr>init_data = 0\<rparr>) k \<noteq> None \<longrightarrow> \<not> dunder k"
    by (simp add: dunder_def)
  have k: "plain_kwargs []" "''x'' \<notin> set (map fst ([] :: kwargs))"
    by (simp_all add: plain_kwargs_def)
  have l: "norm_ppf sp_alg 0 = MInf" "norm_cdf sp_alg MInf = 0"
    "norm_ppf sp_alg 1 = PInf" "norm_cdf sp_alg PInf = 1"
    "norm_ppf sp_alg (3 / 4) = Fin 1" "gini_to_std sp_alg (1 / 2) = 2"
    "norm_cdf sp_alg (Fin (1 - 2)) = 1 / 4"
    by (simp_all add: sp_alg_def gini_to_std_def)
  show ?thesis
    using lorenz_formula [OF v b k example_params [of sp_alg], of "3 / 4" 1] l by simp
qed

end
